theory Spec2Isabelle
  imports Main "HOL-Library.AList" "HOL-Library.List_Lexorder" "HOL-Library.Multiset"
begin

section \<open>Values of the host language\<close>

text \<open>
  The router worker of \<^verbatim>\<open>crossbar/worker/router.py\<close> receives its arguments as decoded
  JSON: identifiers are text, configurations are dictionaries of text keys.  A text is a
  sequence of Unicode code points (a Python \<^verbatim>\<open>str\<close>, \<^verbatim>\<open>unicode\<close> on Python 2); a byte
  string is a \<^typ>\<open>string\<close> of HOL (8-bit characters).  The literal \<open>u ''abc''\<close> is the text
  of the ASCII characters \<open>abc\<close>.
\<close>

type_synonym pystr = "nat list"

definition u :: "string \<Rightarrow> pystr" where
  "u s = map of_char s"

datatype json =
    JNull
  | JBool bool
  | JInt int
  | JStr pystr
  | JList "json list"
  | JObj "(pystr \<times> json) list"

text \<open>
  A Python dictionary is an association list in insertion order: \<^const>\<open>map_of\<close> looks a
  key up, \<^const>\<open>AList.update\<close> is \<^verbatim>\<open>d[k] = v\<close> (in place when the key is present, at the
  end otherwise) and \<^const>\<open>AList.delete\<close> is \<^verbatim>\<open>del d[k]\<close>.
\<close>

type_synonym ('k, 'v) dict = "('k \<times> 'v) list"

definition dict_in :: "'k \<Rightarrow> ('k, 'v) dict \<Rightarrow> bool" where
  "dict_in k d = (map_of d k \<noteq> None)"


text \<open>
  The fault codes of the management API (the URIs \<^verbatim>\<open>crossbar.error.*\<close> carried by an
  \<^verbatim>\<open>ApplicationError\<close>) and the other exceptions the worker's code raises.  The
  human-readable message of a fault and the log lines are not modelled: no operation
  reads them back.
\<close>

datatype fault =
    already_running
  | already_exists
  | no_such_object
  | invalid_configuration
  | cannot_listen
  | cannot_stop
  | not_running
  | class_import_failed

datatype error =
    ApplicationError fault
  | PyException string
  | NotImplementedError
  | KeyError
  | ValueError
  | TypeError
  | AttributeError
  | NameError
  | UnicodeEncodeError
  | ImportError
  | OSError
  | ExternalError nat

text \<open>Subscription \<^verbatim>\<open>d[k]\<close>, \<^verbatim>\<open>d.get(k, default)\<close> and \<^verbatim>\<open>k in d\<close> on a configuration value.
  On a value that is not a dictionary, subscription by a text raises \<^verbatim>\<open>TypeError\<close> and the
  method \<^verbatim>\<open>get\<close> does not exist (\<^verbatim>\<open>AttributeError\<close>); the membership test is reported as
  \<^const>\<open>TypeError\<close>.\<close>

definition py_getitem :: "json \<Rightarrow> pystr \<Rightarrow> error + json" where
  "py_getitem d k =
     (case d of
        JObj al \<Rightarrow> (case map_of al k of None \<Rightarrow> Inl KeyError | Some v \<Rightarrow> Inr v)
      | _ \<Rightarrow> Inl TypeError)"

definition py_get :: "json \<Rightarrow> pystr \<Rightarrow> json \<Rightarrow> error + json" where
  "py_get d k dflt =
     (case d of
        JObj al \<Rightarrow> (case map_of al k of None \<Rightarrow> Inr dflt | Some v \<Rightarrow> Inr v)
      | _ \<Rightarrow> Inl AttributeError)"

definition py_contains :: "pystr \<Rightarrow> json \<Rightarrow> error + bool" where
  "py_contains k d =
     (case d of
        JObj al \<Rightarrow> Inr (dict_in k al)
      | _ \<Rightarrow> Inl TypeError)"

text \<open>Truth value of a configuration value, as \<^verbatim>\<open>if x:\<close> reads it.\<close>

fun truthy :: "json \<Rightarrow> bool" where
  "truthy JNull = False"
| "truthy (JBool b) = b"
| "truthy (JInt n) = (n \<noteq> 0)"
| "truthy (JStr s) = (s \<noteq> [])"
| "truthy (JList xs) = (xs \<noteq> [])"
| "truthy (JObj al) = (al \<noteq> [])"

text \<open>Only immutable values can be dictionary keys.\<close>

fun hashable :: "json \<Rightarrow> bool" where
  "hashable (JList xs) = False"
| "hashable (JObj al) = False"
| "hashable v = True"

section \<open>Entities hosted by the worker\<close>

text \<open>
  Sessions are opaque to the worker: it constructs them and hands them to the
  router session factory.  A session is identified by how it was constructed.
\<close>

datatype session =
    RouterServiceSession json "json option" bool
  | LocalSession json json
  | ApplicationSession json
  | ComponentSession nat

record RouterRealmRole =
  role_id :: pystr
  role_config :: json

record RouterRealmUplink =
  uplink_id :: pystr
  uplink_config :: json
  uplink_session :: "session option"

record RouterRealm =
  realm_id :: pystr
  realm_config :: json
  realm_session :: "session option"
  realm_created :: nat
  realm_roles :: "(pystr, RouterRealmRole) dict"
  realm_uplinks :: "(pystr, RouterRealmUplink) dict"

record RouterComponent =
  component_id :: pystr
  component_config :: json
  component_session :: session
  component_created :: nat


section \<open>The web resource tree\<close>

text \<open>
  Resources of the serving layer, by constructor and constructor arguments, each with
  the children attached to it (\<^verbatim>\<open>putChild\<close> stores a child under its name).  File system
  paths are byte strings where the code encodes them and texts where it does not.
\<close>

datatype pypath = BytesPath string | TextPath pystr

datatype rkind =
    Resource404 string
  | WebSocketResource json
  | StaticResource bool string json "json option"
  | WSGIResource nat json
  | WSGIRootResource nat json
  | RedirectResource string
  | JsonResource json
  | CgiDirectory string json
  | WampLongPollResource json json json json json json
  | PublisherResource json session
  | WebhookResource json session
  | CallerResource json session
  | FileUploadResource string pypath json session json
  | CustomResource nat
  | SchemaDocResource json "json option"

datatype resource = Resource rkind "(string, resource) dict"

fun putChild :: "resource \<Rightarrow> string \<Rightarrow> resource \<Rightarrow> resource" where
  "putChild (Resource k children) name child = Resource k (AList.update name child children)"

fun children_of :: "resource \<Rightarrow> (string, resource) dict" where
  "children_of (Resource k children) = children"

datatype transport_factory =
    WampRawSocketServerFactory json
  | WampWebSocketServerFactory json
  | FlashPolicyFactory json json
  | WebSocketTesteeServerFactory json
  | StreamTesteeServerFactory
  | Site resource bool json "int option"

record RouterTransport =
  transport_id :: pystr
  transport_config :: json
  transport_factory :: transport_factory
  transport_port :: nat
  transport_created :: nat

section \<open>The worker and its collaborators\<close>

text \<open>
  Calls into the collaborators of the worker (the router factory, the router session
  factory, the thread pool, the file system and the listening substrate) are recorded in
  the order in which the worker makes them.  The constructors and methods of the
  collaborators are taken to return; where one can raise, its outcome is a parameter of
  the environment below.
\<close>

datatype effect =
    RouterFactoryStartRealm pystr bool
  | RouterFactoryAddRole json json
  | SessionFactoryAdd session json
  | StartFactory json
  | ThreadPoolStart json json
  | MakeDirs pypath
  | Listen json transport_factory
  | StopListening nat

text \<open>
  The state of a \<^verbatim>\<open>RouterWorkerSession\<close>: the four registries that \<^verbatim>\<open>onJoin\<close> creates, and
  the calls made so far.

  Modelled from the spec: the attribute \<^verbatim>\<open>_connections\<close> is read by
  \<^verbatim>\<open>start_router_component\<close> and assigned nowhere in the class; it belongs to the base
  class, which is not part of the sources, and the spec calls it a pre-existing
  connection pool.  It is a dictionary from connection identifiers to connections.
\<close>

record worker =
  realms :: "(pystr, RouterRealm) dict"
  realm_to_id :: "(json, pystr) dict"
  components :: "(pystr, RouterComponent) dict"
  transports :: "(pystr, RouterTransport) dict"
  connections :: "(pystr, nat) dict"
  calls :: "effect list"

definition onJoin :: "(pystr, nat) dict \<Rightarrow> worker" where
  "onJoin conns =
     \<lparr>realms = [], realm_to_id = [], components = [], transports = [],
      connections = conns, calls = []\<rparr>"

text \<open>
  What the worker takes from outside the class: the interpreter (the file is written for
  Python 2 and Python 3 through \<^verbatim>\<open>six\<close>), the feature flags set at import time, the
  configuration validators of \<^verbatim>\<open>checkconfig\<close> (\<open>True\<close> when the check raises nothing),
  \<^verbatim>\<open>utcstr\<close>, the component loader, the module system and the file system.  None of these
  is part of the sources; each is a parameter, and every theorem holds for all of them.

  \<open>appsession_loader\<close> is the loader found for a component configuration and
  \<open>create_component\<close> the session that the loader makes for a realm and the extra
  configuration, each with the exception it may raise instead.  \<open>import_module\<close> gives a
  handle of the module or the exception of the import, and \<open>module_has\<close> tells whether
  a name is defined in a module.  \<open>resource_filename\<close> is the absolute path of a packaged
  resource, \<open>None\<close> when the lookup raises.  \<open>abspath_join\<close> is the absolute path of a
  directory given relative to the node directory, and \<open>default_temp_directory\<close> the
  directory \<^verbatim>\<open>crossbar-uploads\<close> under the temporary directory of the system.
  \<open>wsgi_resource_ok\<close> tells whether the WSGI resource of an application object can be
  made, and \<open>make_resource\<close> is the resource that a user class makes of its extra
  configuration, \<open>None\<close> when importing or instantiating it raises.
\<close>

datatype pyver = Py2 | Py3

record env =
  python :: pyver
  HAS_WSGI :: bool
  HAS_CGI :: bool
  check_router_realm :: "json \<Rightarrow> bool"
  check_router_component :: "json \<Rightarrow> bool"
  check_router_transport :: "json \<Rightarrow> bool"
  utcstr :: "nat \<Rightarrow> pystr"
  appsession_loader :: "json \<Rightarrow> error + nat"
  create_component :: "nat \<Rightarrow> json \<Rightarrow> json \<Rightarrow> error + session"
  import_module :: "json \<Rightarrow> error + nat"
  module_has :: "nat \<Rightarrow> json \<Rightarrow> bool"
  resource_filename :: "json \<Rightarrow> json \<Rightarrow> pystr option"
  abspath_join :: "pystr \<Rightarrow> pystr"
  default_temp_directory :: pystr
  isdir :: "pypath \<Rightarrow> bool"
  path_exists :: "pypath \<Rightarrow> bool"
  makedirs_ok :: "pypath \<Rightarrow> bool"
  wsgi_resource_ok :: "nat \<Rightarrow> json \<Rightarrow> bool"
  make_resource :: "json \<Rightarrow> json \<Rightarrow> nat option"
  parse_int :: "pystr \<Rightarrow> int option"

section \<open>Realms\<close>

text \<open>
  \<^verbatim>\<open>get_router_realms\<close> logs and raises \<^verbatim>\<open>Exception("not implemented")\<close>.
\<close>

definition get_router_realms :: "worker \<Rightarrow> (error + json list) \<times> worker" where
  "get_router_realms s = (Inl (PyException ''not implemented''), s)"


text \<open>
  \<^verbatim>\<open>start_router_realm\<close> is a coroutine: it runs up to \<^verbatim>\<open>yield extra['onready']\<close>, is
  suspended there until the service session fires the signal, and then logs and returns.
  \<open>start_router_realm_begin\<close> is the code before the suspension point: \<open>Inl e\<close> when it
  raises \<open>e\<close>, \<open>Inr ()\<close> when the call is suspended, each with the state of the worker at
  that moment.  \<open>start_router_realm_resume\<close> is the code after it, run with the outcome
  of the signal.  The clock value \<open>now\<close> is what \<^verbatim>\<open>datetime.utcnow()\<close> returns in the
  constructor of \<^verbatim>\<open>RouterRealm\<close>.

  Modelled from the spec: \<^verbatim>\<open>RouterFactory.start_realm\<close> and \<^verbatim>\<open>RouterSessionFactory.add\<close>
  are not part of the sources; the spec describes them as "create a router for realm X"
  and as attaching a session to the routing-session factory.  Each is recorded as a call
  and taken to return.  The router factory has a router for the URI of each realm that
  was started, once; the examples start a realm once per URI and add to the session
  factory only sessions of a realm that was started.
\<close>

definition start_router_realm_begin ::
  "env \<Rightarrow> worker \<Rightarrow> pystr \<Rightarrow> json \<Rightarrow> json option \<Rightarrow> bool \<Rightarrow> nat \<Rightarrow> (error + unit) \<times> worker" where
  "start_router_realm_begin env s rid config schemas enable_trace now =
     (if dict_in rid (realms s) then (Inl (ApplicationError already_running), s)
      else if \<not> check_router_realm env config then (Inl (ApplicationError invalid_configuration), s)
      else
        (case py_getitem config (u ''name'') of
           Inl e \<Rightarrow> (Inl e, s)
         | Inr realm \<Rightarrow>
             let rlm = \<lparr>realm_id = rid, realm_config = config, realm_session = None,
                        realm_created = now, realm_roles = [], realm_uplinks = []\<rparr>;
                 s1 = s\<lparr>realms := AList.update rid rlm (realms s)\<rparr>
             in if \<not> hashable realm then (Inl TypeError, s1)
                else
                  let s2 = s1\<lparr>realm_to_id := AList.update realm rid (realm_to_id s1)\<rparr>;
                      s3 = s2\<lparr>calls := calls s2 @ [RouterFactoryStartRealm rid enable_trace]\<rparr>;
                      sess = RouterServiceSession realm schemas enable_trace;
                      s4 = s3\<lparr>realms := AList.update rid (rlm\<lparr>realm_session := Some sess\<rparr>) (realms s3)\<rparr>;
                      s5 = s4\<lparr>calls := calls s4 @ [SessionFactoryAdd sess (JStr (u ''trusted''))]\<rparr>
                  in (Inr (), s5)))"

definition start_router_realm_resume :: "error + unit \<Rightarrow> worker \<Rightarrow> (error + unit) \<times> worker" where
  "start_router_realm_resume onready s =
     (case onready of Inl e \<Rightarrow> (Inl e, s) | Inr _ \<Rightarrow> (Inr (), s))"

definition start_router_realm ::
  "env \<Rightarrow> worker \<Rightarrow> pystr \<Rightarrow> json \<Rightarrow> json option \<Rightarrow> bool \<Rightarrow> nat \<Rightarrow> error + unit
     \<Rightarrow> (error + unit) \<times> worker" where
  "start_router_realm env s rid config schemas enable_trace now onready =
     (case start_router_realm_begin env s rid config schemas enable_trace now of
        (Inl e, s1) \<Rightarrow> (Inl e, s1)
      | (Inr _, s1) \<Rightarrow> start_router_realm_resume onready s1)"

definition stop_router_realm :: "worker \<Rightarrow> pystr \<Rightarrow> bool \<Rightarrow> (error + unit) \<times> worker" where
  "stop_router_realm s rid close_sessions = (Inl NotImplementedError, s)"

subsection \<open>Roles\<close>

definition start_router_realm_role ::
  "worker \<Rightarrow> pystr \<Rightarrow> pystr \<Rightarrow> json \<Rightarrow> (error + unit) \<times> worker" where
  "start_router_realm_role s rid rolid config =
     (case map_of (realms s) rid of
        None \<Rightarrow> (Inl (ApplicationError no_such_object), s)
      | Some rlm \<Rightarrow>
          if dict_in rolid (realm_roles rlm) then (Inl (ApplicationError already_exists), s)
          else
            let rlm1 = rlm\<lparr>realm_roles :=
                         AList.update rolid \<lparr>role_id = rolid, role_config = config\<rparr> (realm_roles rlm)\<rparr>;
                s1 = s\<lparr>realms := AList.update rid rlm1 (realms s)\<rparr>
            in (case py_getitem (realm_config rlm1) (u ''name'') of
                  Inl e \<Rightarrow> (Inl e, s1)
                | Inr realm \<Rightarrow> (Inr (), s1\<lparr>calls := calls s1 @ [RouterFactoryAddRole realm config]\<rparr>)))"

definition stop_router_realm_role :: "worker \<Rightarrow> pystr \<Rightarrow> pystr \<Rightarrow> (error + unit) \<times> worker" where
  "stop_router_realm_role s rid rolid =
     (case map_of (realms s) rid of
        None \<Rightarrow> (Inl (ApplicationError no_such_object), s)
      | Some rlm \<Rightarrow>
          if \<not> dict_in rolid (realm_roles rlm) then (Inl (ApplicationError no_such_object), s)
          else (Inr (), s\<lparr>realms :=
                  AList.update rid (rlm\<lparr>realm_roles := AList.delete rolid (realm_roles rlm)\<rparr>) (realms s)\<rparr>))"

subsection \<open>Uplinks\<close>

text \<open>
  \<^verbatim>\<open>start_router_realm_uplink\<close> is a coroutine as well; it is suspended at
  \<^verbatim>\<open>yield extra['onready']\<close>, which delivers the bridge session or raises.
\<close>

definition start_router_realm_uplink_begin ::
  "worker \<Rightarrow> pystr \<Rightarrow> pystr \<Rightarrow> json \<Rightarrow> (error + unit) \<times> worker" where
  "start_router_realm_uplink_begin s rid uid config =
     (case map_of (realms s) rid of
        None \<Rightarrow> (Inl (ApplicationError no_such_object), s)
      | Some rlm \<Rightarrow>
          if dict_in uid (realm_uplinks rlm) then (Inl (ApplicationError already_exists), s)
          else
            let rlm1 = rlm\<lparr>realm_uplinks :=
                         AList.update uid \<lparr>uplink_id = uid, uplink_config = config, uplink_session = None\<rparr>
                           (realm_uplinks rlm)\<rparr>;
                s1 = s\<lparr>realms := AList.update rid rlm1 (realms s)\<rparr>
            in (case py_getitem (realm_config rlm1) (u ''name'') of
                  Inl e \<Rightarrow> (Inl e, s1)
                | Inr realm \<Rightarrow>
                    (Inr (), s1\<lparr>calls := calls s1 @
                       [SessionFactoryAdd (LocalSession realm config) (JStr (u ''trusted''))]\<rparr>)))"

definition start_router_realm_uplink_resume ::
  "worker \<Rightarrow> pystr \<Rightarrow> pystr \<Rightarrow> error + session \<Rightarrow> (error + unit) \<times> worker" where
  "start_router_realm_uplink_resume s rid uid onready =
     (case onready of
        Inl e \<Rightarrow> (Inl e, s)
      | Inr sess \<Rightarrow>
          (case map_of (realms s) rid of
             None \<Rightarrow> (Inl KeyError, s)
           | Some rlm \<Rightarrow>
               (case map_of (realm_uplinks rlm) uid of
                  None \<Rightarrow> (Inl KeyError, s)
                | Some up \<Rightarrow>
                    (Inr (), s\<lparr>realms := AList.update rid
                       (rlm\<lparr>realm_uplinks :=
                          AList.update uid (up\<lparr>uplink_session := Some sess\<rparr>) (realm_uplinks rlm)\<rparr>)
                       (realms s)\<rparr>))))"

definition stop_router_realm_uplink :: "worker \<Rightarrow> pystr \<Rightarrow> pystr \<Rightarrow> (error + unit) \<times> worker" where
  "stop_router_realm_uplink s rid uid = (Inl NotImplementedError, s)"

section \<open>Components\<close>

text \<open>\<^verbatim>\<open>ref.split(':')\<close>: the pieces of a text between the occurrences of a separator.\<close>

fun split_on :: "nat \<Rightarrow> pystr \<Rightarrow> pystr list" where
  "split_on c [] = [[]]"
| "split_on c (x # xs) =
     (if x = c then [] # split_on c xs
      else (case split_on c xs of [] \<Rightarrow> [[x]] | p # ps \<Rightarrow> (x # p) # ps))"

text \<open>Iteration over a configuration value, as \<^verbatim>\<open>for ref in refs\<close> does it.\<close>

fun py_iter :: "json \<Rightarrow> error + json list" where
  "py_iter (JList xs) = Inr xs"
| "py_iter (JObj al) = Inr (map (\<lambda>k. JStr k) (remdups (map fst al)))"
| "py_iter (JStr t) = Inr (map (\<lambda>c. JStr [c]) t)"
| "py_iter v = Inl TypeError"

text \<open>
  The loop that resolves the references of a component: each reference is split at the
  colons and unpacked into exactly two names (\<^verbatim>\<open>ref_type, ref_id = ref.split(':')\<close> raises
  \<^verbatim>\<open>ValueError\<close> on any other number of pieces, \<^verbatim>\<open>AttributeError\<close> when the reference is
  not a text).
\<close>

fun resolve_references ::
  "(pystr, nat) dict \<Rightarrow> json list \<Rightarrow> (pystr, nat) dict \<Rightarrow> error + (pystr, nat) dict" where
  "resolve_references conns [] references = Inr references"
| "resolve_references conns (r # rs) references =
     (case r of
        JStr ref \<Rightarrow>
          (case split_on (of_char CHR '':'') ref of
             [ref_type, ref_id] \<Rightarrow>
               if ref_type = u ''connection'' then
                 (case map_of conns ref_id of
                    Some c \<Rightarrow> resolve_references conns rs (AList.update ref c references)
                  | None \<Rightarrow> Inl (ApplicationError invalid_configuration))
               else Inl (ApplicationError invalid_configuration)
           | _ \<Rightarrow> Inl ValueError)
      | _ \<Rightarrow> Inl AttributeError)"

text \<open>
  A reference that the loop resolves: a text of exactly two pieces, the first
  \<^verbatim>\<open>connection\<close>, the second the identifier of a connection of the pool.
\<close>

definition resolvable_reference :: "(pystr, nat) dict \<Rightarrow> json \<Rightarrow> bool" where
  "resolvable_reference conns r =
     (case r of
        JStr ref \<Rightarrow>
          (case split_on (of_char CHR '':'') ref of
             [ref_type, ref_id] \<Rightarrow> ref_type = u ''connection'' \<and> dict_in ref_id conns
           | _ \<Rightarrow> False)
      | _ \<Rightarrow> False)"

text \<open>
  \<^verbatim>\<open>start_router_component\<close>.  The loader (\<^verbatim>\<open>_appsession_loader\<close>) and the session class it
  loads are user code: \<open>appsession_loader\<close> and \<open>create_component\<close> give their result
  or the exception they raise.  The join and leave hooks and the error handler that the
  operation installs on the session change no registry and are not modelled.
\<close>

definition start_router_component ::
  "env \<Rightarrow> worker \<Rightarrow> pystr \<Rightarrow> json \<Rightarrow> nat \<Rightarrow> (error + unit) \<times> worker" where
  "start_router_component env s cid config now =
     (if dict_in cid (components s) then (Inl (ApplicationError already_running), s)
      else if \<not> check_router_component env config then
        (Inl (ApplicationError invalid_configuration), s)
      else
        (case py_getitem config (u ''type'') of
           Inl e \<Rightarrow> (Inl e, s)
         | Inr _ \<Rightarrow>
        (case py_get config (u ''references'') (JList []) of
           Inl e \<Rightarrow> (Inl e, s)
         | Inr refs \<Rightarrow>
        (case py_iter refs of
           Inl e \<Rightarrow> (Inl e, s)
         | Inr rs \<Rightarrow>
        (case resolve_references (connections s) rs [] of
           Inl e \<Rightarrow> (Inl e, s)
         | Inr _ \<Rightarrow>
        (case py_getitem config (u ''realm'') of
           Inl e \<Rightarrow> (Inl e, s)
         | Inr realm \<Rightarrow>
        (case py_get config (u ''extra'') JNull of
           Inl e \<Rightarrow> (Inl e, s)
         | Inr extra \<Rightarrow>
        (case appsession_loader env config of
           Inl e \<Rightarrow> (Inl e, s)
         | Inr loader \<Rightarrow>
        (case create_component env loader realm extra of
           Inl e \<Rightarrow> (Inl e, s)
         | Inr session \<Rightarrow>
        (case py_get config (u ''role'') (JStr (u ''anonymous'')) of
           Inl e \<Rightarrow> (Inl e, s)
         | Inr role \<Rightarrow>
             let c = \<lparr>component_id = cid, component_config = config,
                      component_session = session, component_created = now\<rparr>;
                 s1 = s\<lparr>components := AList.update cid c (components s)\<rparr>
             in (Inr (), s1\<lparr>calls := calls s1 @ [SessionFactoryAdd session role]\<rparr>)))))))))))"

text \<open>
  \<^verbatim>\<open>stop_router_component\<close>.  Inside its \<^verbatim>\<open>try\<close> block the operation evaluates
  \<^verbatim>\<open>self._session_factory.remove(self.components[id])\<close>.

  Modelled from the spec: the base class is not part of the sources, and the spec states
  that \<^verbatim>\<open>_session_factory\<close> is an attribute that does not exist in this class
  (\<^verbatim>\<open>onJoin\<close> assigns \<^verbatim>\<open>_router_session_factory\<close>).  The attribute lookup therefore raises
  \<^verbatim>\<open>AttributeError\<close>, the handler \<^verbatim>\<open>except Exception\<close> turns it into the fault
  \<^verbatim>\<open>cannot_stop\<close>, and \<^verbatim>\<open>del self.components[id]\<close> is never reached.
\<close>

definition session_factory_attr :: "worker \<Rightarrow> error + unit" where
  "session_factory_attr s = Inl AttributeError"

definition stop_router_component :: "worker \<Rightarrow> pystr \<Rightarrow> (error + unit) \<times> worker" where
  "stop_router_component s cid =
     (if dict_in cid (components s) then
        (case session_factory_attr s of
           Inl e \<Rightarrow> (Inl (ApplicationError cannot_stop), s)
         | Inr _ \<Rightarrow> (Inr (), s\<lparr>components := AList.delete cid (components s)\<rparr>))
      else (Inl (ApplicationError no_such_object), s))"



section \<open>The resource tree builder\<close>

text \<open>
  \<^verbatim>\<open>t.encode('ascii', 'ignore')\<close> drops the code points outside ASCII;
  \<^verbatim>\<open>t.encode('utf8')\<close> fails on a surrogate code point under Python 3.
\<close>

definition ascii_ignore :: "pystr \<Rightarrow> string" where
  "ascii_ignore t = map char_of (filter (\<lambda>c. c < 128) t)"

definition utf8_char :: "pyver \<Rightarrow> nat \<Rightarrow> string option" where
  "utf8_char pv c =
     (if c < 128 then Some [char_of c]
      else if c < 2048 then Some [char_of (192 + c div 64), char_of (128 + c mod 64)]
      else if c < 65536 then
        (if pv = Py3 \<and> 55296 \<le> c \<and> c < 57344 then None
         else Some [char_of (224 + c div 4096), char_of (128 + c div 64 mod 64),
                    char_of (128 + c mod 64)])
      else if c < 1114112 then
        Some [char_of (240 + c div 262144), char_of (128 + c div 4096 mod 64),
              char_of (128 + c div 64 mod 64), char_of (128 + c mod 64)]
      else None)"

fun encode_utf8 :: "pyver \<Rightarrow> pystr \<Rightarrow> string option" where
  "encode_utf8 pv [] = Some []"
| "encode_utf8 pv (c # cs) =
     (case utf8_char pv c of
        None \<Rightarrow> None
      | Some bs \<Rightarrow> (case encode_utf8 pv cs of None \<Rightarrow> None | Some r \<Rightarrow> Some (bs @ r)))"

text \<open>
  \<^verbatim>\<open>path != b"/"\<close> for a text \<^verbatim>\<open>path\<close>.  Under Python 2 a text and a byte string of ASCII
  characters are equal when their characters are; under Python 3 a text never equals a
  byte string, so the comparison is true for every text.
\<close>

definition text_ne_bytes :: "pyver \<Rightarrow> pystr \<Rightarrow> string \<Rightarrow> bool" where
  "text_ne_bytes pv t b = (case pv of Py2 \<Rightarrow> t \<noteq> map of_char b | Py3 \<Rightarrow> True)"

text \<open>\<^verbatim>\<open>os.path.abspath(os.path.join(self.config.extra.cbdir, d)).encode('ascii', 'ignore')\<close>\<close>

definition directory_of :: "env \<Rightarrow> json \<Rightarrow> error + string" where
  "directory_of env d =
     (case d of JStr t \<Rightarrow> Inr (ascii_ignore (abspath_join env t)) | _ \<Rightarrow> Inl TypeError)"

definition import_failed :: "error \<Rightarrow> error" where
  "import_failed e = (if e = ImportError then ApplicationError invalid_configuration else e)"

definition create_websocket :: "json \<Rightarrow> (error + resource) \<times> effect list" where
  "create_websocket path_config =
     (Inr (Resource (WebSocketResource path_config) []), [StartFactory path_config])"

definition static_dir_of :: "env \<Rightarrow> json \<Rightarrow> error + string" where
  "static_dir_of env path_config =
     (case path_config of
        JObj al \<Rightarrow>
          (case map_of al (u ''directory'') of
             Some d \<Rightarrow> directory_of env d
           | None \<Rightarrow>
               (case map_of al (u ''package'') of
                  Some package \<Rightarrow>
                    (case map_of al (u ''resource'') of
                       None \<Rightarrow> Inl (ApplicationError invalid_configuration)
                     | Some res \<Rightarrow>
                         (case import_module env package of
                            Inl e \<Rightarrow> Inl (import_failed e)
                          | Inr _ \<Rightarrow>
                              (case resource_filename env package res of
                                 None \<Rightarrow> Inl (ApplicationError invalid_configuration)
                               | Some d \<Rightarrow> Inr (ascii_ignore d))))
                | None \<Rightarrow> Inl (ApplicationError invalid_configuration)))
      | _ \<Rightarrow> Inl TypeError)"

definition create_static :: "env \<Rightarrow> json \<Rightarrow> (error + resource) \<times> effect list" where
  "create_static env path_config =
     (case py_get path_config (u ''options'') (JObj []) of
        Inl e \<Rightarrow> (Inl e, [])
      | Inr static_options \<Rightarrow>
     (case static_dir_of env path_config of
        Inl e \<Rightarrow> (Inl e, [])
      | Inr static_dir \<Rightarrow>
     (case py_get static_options (u ''enable_directory_listing'') (JBool False) of
        Inl e \<Rightarrow> (Inl e, [])
      | Inr listing \<Rightarrow>
     (case py_get static_options (u ''cache_timeout'') (JInt 43200) of
        Inl e \<Rightarrow> (Inl e, [])
      | Inr cache_timeout \<Rightarrow>
     (case static_options of
        JObj opts \<Rightarrow>
          (Inr (Resource (StaticResource (truthy listing) static_dir cache_timeout
                  (map_of opts (u ''mime_types''))) []), [])
      | _ \<Rightarrow> (Inl TypeError, []))))))"

definition create_wsgi :: "env \<Rightarrow> json \<Rightarrow> bool \<Rightarrow> (error + resource) \<times> effect list" where
  "create_wsgi env path_config nested =
     (if \<not> HAS_WSGI env then (Inl (ApplicationError invalid_configuration), [])
      else
        (case path_config of
           JObj al \<Rightarrow>
             (case map_of al (u ''module'') of
                None \<Rightarrow> (Inl (ApplicationError invalid_configuration), [])
              | Some mod_name \<Rightarrow>
             (case map_of al (u ''object'') of
                None \<Rightarrow> (Inl (ApplicationError invalid_configuration), [])
              | Some obj_name \<Rightarrow>
             (case import_module env mod_name of
                Inl e \<Rightarrow> (Inl (import_failed e), [])
              | Inr m \<Rightarrow>
                  if \<not> module_has env m obj_name then
                    (Inl (ApplicationError invalid_configuration), [])
                  else
                    let pool = [ThreadPoolStart
                                  (case map_of al (u ''maxthreads'') of None \<Rightarrow> JInt 20 | Some v \<Rightarrow> v)
                                  (case map_of al (u ''minthreads'') of None \<Rightarrow> JInt 0 | Some v \<Rightarrow> v)]
                    in if wsgi_resource_ok env m obj_name then
                         (Inr (Resource (if nested then WSGIResource m obj_name
                                         else WSGIRootResource m obj_name) []), pool)
                       else (Inl (ApplicationError invalid_configuration), pool))))
         | _ \<Rightarrow> (Inl TypeError, [])))"

definition create_redirect :: "json \<Rightarrow> (error + resource) \<times> effect list" where
  "create_redirect path_config =
     (case py_getitem path_config (u ''url'') of
        Inl e \<Rightarrow> (Inl e, [])
      | Inr (JStr url) \<Rightarrow> (Inr (Resource (RedirectResource (ascii_ignore url)) []), [])
      | Inr _ \<Rightarrow> (Inl AttributeError, []))"

definition create_json :: "json \<Rightarrow> (error + resource) \<times> effect list" where
  "create_json path_config =
     (case py_getitem path_config (u ''value'') of
        Inl e \<Rightarrow> (Inl e, [])
      | Inr v \<Rightarrow> (Inr (Resource (JsonResource v) []), []))"

definition create_cgi :: "env \<Rightarrow> json \<Rightarrow> (error + resource) \<times> effect list" where
  "create_cgi env path_config =
     (case py_getitem path_config (u ''processor'') of
        Inl e \<Rightarrow> (Inl e, [])
      | Inr cgi_processor \<Rightarrow>
     (case py_getitem path_config (u ''directory'') of
        Inl e \<Rightarrow> (Inl e, [])
      | Inr d \<Rightarrow>
     (case directory_of env d of
        Inl e \<Rightarrow> (Inl e, [])
      | Inr cgi_directory \<Rightarrow>
          if HAS_CGI env then (Inr (Resource (CgiDirectory cgi_directory cgi_processor) []), [])
          else (Inl NameError, []))))"

definition create_longpoll :: "json \<Rightarrow> (error + resource) \<times> effect list" where
  "create_longpoll path_config =
     (case py_get path_config (u ''options'') (JObj []) of
        Inl e \<Rightarrow> (Inl e, [])
      | Inr path_options \<Rightarrow>
          (case path_options of
             JObj opts \<Rightarrow>
               let opt = (\<lambda>k d. case map_of opts k of None \<Rightarrow> d | Some v \<Rightarrow> v)
               in (Inr (Resource (WampLongPollResource
                          (opt (u ''request_timeout'') (JInt 10))
                          (opt (u ''session_timeout'') (JInt 30))
                          (opt (u ''queue_limit_bytes'') (JInt 131072))
                          (opt (u ''queue_limit_messages'') (JInt 100))
                          (opt (u ''debug'') (JBool False))
                          (opt (u ''debug_transport_id'') JNull)) []), [])
           | _ \<Rightarrow> (Inl TypeError, [])))"

text \<open>
  The publisher, webhook and caller resources of the REST bridge: each constructs an
  application session for the configured realm, adds it to the router session factory
  under the configured role and wraps it in its resource.
\<close>

definition create_bridge ::
  "(json \<Rightarrow> session \<Rightarrow> rkind) \<Rightarrow> json \<Rightarrow> (error + resource) \<times> effect list" where
  "create_bridge wrap path_config =
     (case py_getitem path_config (u ''realm'') of
        Inl e \<Rightarrow> (Inl e, [])
      | Inr realm \<Rightarrow>
     (case py_get path_config (u ''role'') (JStr (u ''anonymous'')) of
        Inl e \<Rightarrow> (Inl e, [])
      | Inr role \<Rightarrow>
     (case py_get path_config (u ''options'') (JObj []) of
        Inl e \<Rightarrow> (Inl e, [SessionFactoryAdd (ApplicationSession realm) role])
      | Inr options \<Rightarrow>
          (Inr (Resource (wrap options (ApplicationSession realm)) []),
           [SessionFactoryAdd (ApplicationSession realm) role]))))"

definition create_upload :: "env \<Rightarrow> json \<Rightarrow> (error + resource) \<times> effect list" where
  "create_upload env path_config =
     (case py_getitem path_config (u ''directory'') of
        Inl e \<Rightarrow> (Inl e, [])
      | Inr d \<Rightarrow>
     (case directory_of env d of
        Inl e \<Rightarrow> (Inl e, [])
      | Inr upload_directory \<Rightarrow>
          if \<not> isdir env (BytesPath upload_directory) then
            (Inl (ApplicationError invalid_configuration), [])
          else
     (case (case py_getitem path_config (u ''temp_directory'') of
              Inr t \<Rightarrow>
                (case directory_of env t of
                   Inl e \<Rightarrow> (Inl e, [])
                 | Inr temp \<Rightarrow>
                     if isdir env (BytesPath temp) then (Inr (BytesPath temp), [])
                     else (Inl (ApplicationError invalid_configuration), []))
            | Inl _ \<Rightarrow>
                let temp = TextPath (default_temp_directory env)
                in if path_exists env temp then
                     (if isdir env temp then (Inr temp, [])
                      else (Inl (ApplicationError invalid_configuration), []))
                   else if makedirs_ok env temp then (Inr temp, [MakeDirs temp])
                   else (Inl OSError, [MakeDirs temp])) of
        (Inl e, fx) \<Rightarrow> (Inl e, fx)
      | (Inr temp_directory, fx) \<Rightarrow>
     (case py_getitem path_config (u ''realm'') of
        Inl e \<Rightarrow> (Inl e, fx)
      | Inr realm \<Rightarrow>
     (case py_get path_config (u ''role'') (JStr (u ''anonymous'')) of
        Inl e \<Rightarrow> (Inl e, fx)
      | Inr role \<Rightarrow>
          let upload_session = ApplicationSession realm;
              fx1 = fx @ [SessionFactoryAdd upload_session role]
          in
     (case py_getitem path_config (u ''form_fields'') of
        Inl e \<Rightarrow> (Inl e, fx1)
      | Inr form_fields \<Rightarrow>
     (case py_get path_config (u ''options'') (JObj []) of
        Inl e \<Rightarrow> (Inl e, fx1)
      | Inr options \<Rightarrow>
          (Inr (Resource (FileUploadResource upload_directory temp_directory form_fields
                            upload_session options) []), fx1))))))))"

text \<open>
  A generic resource is made by user code located by its dotted class name;
  \<open>make_resource\<close> is \<open>None\<close> when anything in the \<^verbatim>\<open>try\<close> block raises.  When the key
  \<^verbatim>\<open>classname\<close> itself is missing, the handler formats its message from the unassigned
  variable \<^verbatim>\<open>klassname\<close> and raises \<^verbatim>\<open>UnboundLocalError\<close>, a \<^verbatim>\<open>NameError\<close>.
\<close>

definition create_custom :: "env \<Rightarrow> json \<Rightarrow> (error + resource) \<times> effect list" where
  "create_custom env path_config =
     (case py_getitem path_config (u ''classname'') of
        Inl e \<Rightarrow> (Inl NameError, [])
      | Inr klassname \<Rightarrow>
     (case py_get path_config (u ''extra'') (JObj []) of
        Inl e \<Rightarrow> (Inl (ApplicationError class_import_failed), [])
      | Inr extra \<Rightarrow>
          (case make_resource env klassname extra of
             None \<Rightarrow> (Inl (ApplicationError class_import_failed), [])
           | Some r \<Rightarrow> (Inr (Resource (CustomResource r) []), []))))"

definition schemas_of :: "session \<Rightarrow> error + json option" where
  "schemas_of sess =
     (case sess of RouterServiceSession realm schemas trace \<Rightarrow> Inr schemas | _ \<Rightarrow> Inl AttributeError)"

definition create_schemadoc :: "worker \<Rightarrow> json \<Rightarrow> (error + resource) \<times> effect list" where
  "create_schemadoc s path_config =
     (case py_getitem path_config (u ''realm'') of
        Inl e \<Rightarrow> (Inl e, [])
      | Inr realm \<Rightarrow>
          if \<not> hashable realm then (Inl TypeError, [])
          else
     (case map_of (realm_to_id s) realm of
        None \<Rightarrow> (Inl (ApplicationError no_such_object), [])
      | Some rid \<Rightarrow>
     (case map_of (realms s) rid of
        None \<Rightarrow> (Inl KeyError, [])
      | Some rlm \<Rightarrow>
     (case realm_session rlm of
        None \<Rightarrow> (Inl AttributeError, [])
      | Some sess \<Rightarrow>
     (case schemas_of sess of
        Inl e \<Rightarrow> (Inl e, [])
      | Inr realm_schemas \<Rightarrow>
          (Inr (Resource (SchemaDocResource realm realm_schemas) []), []))))))"


text \<open>
  The path map of a container: a dictionary.  An empty list and an empty text hold no
  path either (\<^verbatim>\<open>'/' in paths\<close> is false and \<^verbatim>\<open>sorted(paths)\<close> is empty), and the code
  builds the container without children.  On any other value the code raises when it
  tests for the root path or looks up the first path; this is reported as
  \<^const>\<open>TypeError\<close>.
\<close>

fun as_paths :: "json \<Rightarrow> error + (pystr, json) dict" where
  "as_paths (JObj al) = Inr al"
| "as_paths (JList []) = Inr []"
| "as_paths (JStr []) = Inr []"
| "as_paths v = Inl TypeError"

text \<open>
  \<^verbatim>\<open>_add_paths\<close>: the loop over \<^verbatim>\<open>sorted(paths)\<close>.  The keys of a configuration dictionary
  are texts, so \<^verbatim>\<open>isinstance(path, six.text_type)\<close> holds and the child name is
  \<^verbatim>\<open>path.encode('utf8')\<close>.  The builder of the child resources is the argument \<open>mk\<close>
  (the method calls \<^verbatim>\<open>self._create_resource(paths[path])\<close>); a call that raises ends
  the loop, and the calls made until then stay made.
\<close>

definition dict_keys :: "('k, 'v) dict \<Rightarrow> 'k list" where
  "dict_keys d = remdups (map fst d)"

fun add_paths_loop ::
  "pyver \<Rightarrow> (json \<Rightarrow> (error + resource) \<times> effect list) \<Rightarrow> (pystr, json) dict \<Rightarrow> pystr list
     \<Rightarrow> resource \<Rightarrow> (error + resource) \<times> effect list" where
  "add_paths_loop pv mk paths [] resource = (Inr resource, [])"
| "add_paths_loop pv mk paths (path # rest) resource =
     (case encode_utf8 pv path of
        None \<Rightarrow> (Inl UnicodeEncodeError, [])
      | Some webPath \<Rightarrow>
          if text_ne_bytes pv path ''/'' then
            (case map_of paths path of
               None \<Rightarrow> (Inl KeyError, [])
             | Some path_config \<Rightarrow>
                 (case mk path_config of
                    (Inl e, fx) \<Rightarrow> (Inl e, fx)
                  | (Inr child, fx) \<Rightarrow>
                      (case add_paths_loop pv mk paths rest (putChild resource webPath child) of
                         (r, fx') \<Rightarrow> (r, fx @ fx'))))
          else add_paths_loop pv mk paths rest resource)"

definition add_paths ::
  "pyver \<Rightarrow> (json \<Rightarrow> (error + resource) \<times> effect list) \<Rightarrow> resource \<Rightarrow> (pystr, json) dict
     \<Rightarrow> (error + resource) \<times> effect list" where
  "add_paths pv mk resource paths = add_paths_loop pv mk paths (sort (dict_keys paths)) resource"

lemma add_paths_loop_cong [fundef_cong]:
  assumes "pv = pv'" "paths = paths'" "keys = keys'" "resource = resource'"
    and "\<And>pc. pc \<in> snd ` set paths' \<Longrightarrow> mk pc = mk' pc"
  shows "add_paths_loop pv mk paths keys resource = add_paths_loop pv' mk' paths' keys' resource'"
  unfolding assms(1-4) using assms(5)
proof (induction keys' arbitrary: resource')
  case Nil
  show ?case by simp
next
  case (Cons k ks)
  have "mk pc = mk' pc" if "map_of paths' k = Some pc" for pc
    using that Cons.prems by (force dest: map_of_SomeD)
  then show ?case
    using Cons by (auto split: option.splits prod.splits sum.splits)
qed

lemma add_paths_cong [fundef_cong]:
  assumes "pv = pv'" "paths = paths'" "resource = resource'"
    and "\<And>pc. pc \<in> snd ` set paths' \<Longrightarrow> mk pc = mk' pc"
  shows "add_paths pv mk resource paths = add_paths pv' mk' resource' paths'"
  unfolding add_paths_def using assms by (auto intro: add_paths_loop_cong)

lemma size_map_of_json: "map_of al k = Some v \<Longrightarrow> size v < size (JObj al)"
  by (induction al) (auto split: if_splits)

lemma size_snd_json: "v \<in> snd ` set al \<Longrightarrow> size v < size (JObj al)"
  by (induction al) fastforce+

text \<open>
  \<^verbatim>\<open>_create_resource\<close>: the dispatch on \<^verbatim>\<open>path_config['type']\<close>.  A container of type
  \<^verbatim>\<open>path\<close> builds its own root (a 404 page when it has none) and attaches its nested
  paths; every type that is not one of the thirteen is the fault
  \<^verbatim>\<open>invalid_configuration\<close>.
\<close>

function create_resource ::
  "env \<Rightarrow> worker \<Rightarrow> json \<Rightarrow> bool \<Rightarrow> (error + resource) \<times> effect list" where
  "create_resource env s path_config nested =
     (case py_getitem path_config (u ''type'') of
        Inl e \<Rightarrow> (Inl e, [])
      | Inr ty \<Rightarrow>
          if ty = JStr (u ''websocket'') then create_websocket path_config
          else if ty = JStr (u ''static'') then create_static env path_config
          else if ty = JStr (u ''wsgi'') then create_wsgi env path_config nested
          else if ty = JStr (u ''redirect'') then create_redirect path_config
          else if ty = JStr (u ''json'') then create_json path_config
          else if ty = JStr (u ''cgi'') then create_cgi env path_config
          else if ty = JStr (u ''longpoll'') then create_longpoll path_config
          else if ty = JStr (u ''publisher'') then create_bridge PublisherResource path_config
          else if ty = JStr (u ''webhook'') then create_bridge WebhookResource path_config
          else if ty = JStr (u ''caller'') then create_bridge CallerResource path_config
          else if ty = JStr (u ''upload'') then create_upload env path_config
          else if ty = JStr (u ''resource'') then create_custom env path_config
          else if ty = JStr (u ''schemadoc'') then create_schemadoc s path_config
          else if ty = JStr (u ''path'') then
            (case py_get path_config (u ''paths'') (JObj []) of
               Inl e \<Rightarrow> (Inl e, [])
             | Inr x \<Rightarrow>
                 (case as_paths x of
                    Inl e \<Rightarrow> (Inl e, [])
                  | Inr nested_paths \<Rightarrow>
                      (case (case map_of nested_paths (u ''/'') of
                               Some root_config \<Rightarrow> create_resource env s root_config True
                             | None \<Rightarrow> (Inr (Resource (Resource404 []) []), [])) of
                         (Inl e, fx) \<Rightarrow> (Inl e, fx)
                       | (Inr nested_resource, fx) \<Rightarrow>
                           (case add_paths (python env) (\<lambda>pc. create_resource env s pc True)
                                   nested_resource nested_paths of
                              (r, fx') \<Rightarrow> (r, fx @ fx')))))
          else (Inl (ApplicationError invalid_configuration), []))"
  by pat_completeness auto
termination
proof (relation "measure (\<lambda>(env, s, path_config, nested). size path_config)")
  show "wf (measure (\<lambda>(env, s, path_config, nested). size path_config))" by simp
next
  fix env :: env and s :: worker and path_config :: json and nested :: bool
    and ty x nested_paths root_config
  assume "py_getitem path_config (u ''type'') = Inr ty"
    and p: "py_get path_config (u ''paths'') (JObj []) = Inr x" "as_paths x = Inr nested_paths"
    and r: "map_of nested_paths (u ''/'') = Some root_config"
  from p(2) r have x: "x = JObj nested_paths"
    by (cases x rule: as_paths.cases) auto
  from p(1) x have "size (JObj nested_paths) < size path_config \<or> nested_paths = []"
    by (auto simp: py_get_def split: json.splits option.splits dest: size_map_of_json)
  with r show "((env, s, root_config, True), (env, s, path_config, nested))
      \<in> measure (\<lambda>(env, s, path_config, nested). size path_config)"
    using size_map_of_json [OF r] by auto
next
  fix env :: env and s :: worker and path_config :: json and nested :: bool
    and ty x nested_paths pc
  assume "py_getitem path_config (u ''type'') = Inr ty"
    and p: "py_get path_config (u ''paths'') (JObj []) = Inr x" "as_paths x = Inr nested_paths"
    and r: "pc \<in> snd ` set nested_paths"
  from p(2) r have x: "x = JObj nested_paths"
    by (cases x rule: as_paths.cases) auto
  from p(1) x have "size (JObj nested_paths) < size path_config \<or> nested_paths = []"
    by (auto simp: py_get_def split: json.splits option.splits dest: size_map_of_json)
  with r show "((env, s, pc, True), (env, s, path_config, nested))
      \<in> measure (\<lambda>(env, s, path_config, nested). size path_config)"
    using size_snd_json [OF r] by auto
qed

declare create_resource.simps [simp del]

section \<open>Transports\<close>

text \<open>\<^verbatim>\<open>int(x)\<close> on a configuration value; \<open>parse_int\<close> reads a decimal text.\<close>

definition py_int :: "env \<Rightarrow> json \<Rightarrow> error + int" where
  "py_int env v =
     (case v of
        JInt n \<Rightarrow> Inr n
      | JBool b \<Rightarrow> Inr (if b then 1 else 0)
      | JStr t \<Rightarrow> (case parse_int env t of None \<Rightarrow> Inl ValueError | Some n \<Rightarrow> Inr n)
      | _ \<Rightarrow> Inl TypeError)"

text \<open>
  The options of a web transport, applied to the \<^verbatim>\<open>Site\<close> of the root resource: access
  logging, display of tracebacks, and HTTP Strict Transport Security, which is skipped
  with a warning when the endpoint has no TLS.
\<close>

definition web_site :: "env \<Rightarrow> json \<Rightarrow> json \<Rightarrow> resource \<Rightarrow> error + transport_factory" where
  "web_site env config options root =
     (case py_get options (u ''access_log'') (JBool False) of
        Inl e \<Rightarrow> Inl e
      | Inr access_log \<Rightarrow>
     (case py_get options (u ''display_tracebacks'') (JBool False) of
        Inl e \<Rightarrow> Inl e
      | Inr display_tracebacks \<Rightarrow>
     (case py_get options (u ''hsts'') (JBool False) of
        Inl e \<Rightarrow> Inl e
      | Inr hsts \<Rightarrow>
          if truthy hsts then
            (case py_getitem config (u ''endpoint'') of
               Inl e \<Rightarrow> Inl e
             | Inr endpoint \<Rightarrow>
            (case py_contains (u ''tls'') endpoint of
               Inl e \<Rightarrow> Inl e
             | Inr True \<Rightarrow>
                 (case py_get options (u ''hsts_max_age'') (JInt 31536000) of
                    Inl e \<Rightarrow> Inl e
                  | Inr age \<Rightarrow>
                      (case py_int env age of
                         Inl e \<Rightarrow> Inl e
                       | Inr hsts_max_age \<Rightarrow>
                           Inr (Site root (truthy access_log) display_tracebacks (Some hsts_max_age))))
             | Inr False \<Rightarrow> Inr (Site root (truthy access_log) display_tracebacks None)))
          else Inr (Site root (truthy access_log) display_tracebacks None))))"

definition web_transport_factory ::
  "env \<Rightarrow> worker \<Rightarrow> json \<Rightarrow> (error + transport_factory) \<times> effect list" where
  "web_transport_factory env s config =
     (case py_get config (u ''options'') (JObj []) of
        Inl e \<Rightarrow> (Inl e, [])
      | Inr options \<Rightarrow>
     (case py_getitem config (u ''paths'') of
        Inl e \<Rightarrow> (Inl e, [])
      | Inr x \<Rightarrow>
     (case as_paths x of
        Inl e \<Rightarrow> (Inl e, [])
      | Inr paths \<Rightarrow>
          (case (case map_of paths (u ''/'') of
                   Some root_config \<Rightarrow> create_resource env s root_config False
                 | None \<Rightarrow> (Inr (Resource (Resource404 []) []), [])) of
             (Inl e, fx) \<Rightarrow> (Inl e, fx)
           | (Inr root, fx) \<Rightarrow>
               (case add_paths (python env) (\<lambda>pc. create_resource env s pc True) root paths of
                  (Inl e, fx') \<Rightarrow> (Inl e, fx @ fx')
                | (Inr root', fx') \<Rightarrow> (web_site env config options root', fx @ fx'))))))"

text \<open>The choice of the transport factory by \<^verbatim>\<open>config['type']\<close>.\<close>

definition select_transport_factory ::
  "env \<Rightarrow> worker \<Rightarrow> json \<Rightarrow> (error + transport_factory) \<times> effect list" where
  "select_transport_factory env s config =
     (case py_getitem config (u ''type'') of
        Inl e \<Rightarrow> (Inl e, [])
      | Inr ty \<Rightarrow>
          if ty = JStr (u ''rawsocket'') then (Inr (WampRawSocketServerFactory config), [])
          else if ty = JStr (u ''websocket'') then (Inr (WampWebSocketServerFactory config), [])
          else if ty = JStr (u ''flashpolicy'') then
            (case py_get config (u ''allowed_domain'') JNull of
               Inl e \<Rightarrow> (Inl e, [])
             | Inr allowed_domain \<Rightarrow>
                 (case py_get config (u ''allowed_ports'') JNull of
                    Inl e \<Rightarrow> (Inl e, [])
                  | Inr allowed_ports \<Rightarrow> (Inr (FlashPolicyFactory allowed_domain allowed_ports), [])))
          else if ty = JStr (u ''websocket.testee'') then (Inr (WebSocketTesteeServerFactory config), [])
          else if ty = JStr (u ''stream.testee'') then (Inr StreamTesteeServerFactory, [])
          else if ty = JStr (u ''web'') then web_transport_factory env s config
          else (Inl (PyException ''logic error''), []))"

text \<open>
  \<^verbatim>\<open>start_router_transport\<close> runs synchronously up to the request for a listening port
  (\<^verbatim>\<open>create_listening_port_from_config\<close>, which returns a deferred) and returns that
  deferred with two callbacks attached.  \<open>start_router_transport_begin\<close> is the
  synchronous part; it yields the transport factory that waits for its port.  The
  callback \<^verbatim>\<open>ok\<close> runs when the port is bound, \<^verbatim>\<open>fail\<close> when the bind fails, each on the
  state of the worker at that moment; \<open>now\<close> is the clock read in the constructor of
  \<^verbatim>\<open>RouterTransport\<close>.  \<open>start_router_transport\<close> is a call whose bind completes before
  any other operation runs.
\<close>

definition start_router_transport_begin ::
  "env \<Rightarrow> worker \<Rightarrow> pystr \<Rightarrow> json \<Rightarrow> (error + transport_factory) \<times> worker" where
  "start_router_transport_begin env s tid config =
     (if dict_in tid (transports s) then (Inl (ApplicationError already_running), s)
      else if \<not> check_router_transport env config then
        (Inl (ApplicationError invalid_configuration), s)
      else
        (case select_transport_factory env s config of
           (Inl e, fx) \<Rightarrow> (Inl e, s\<lparr>calls := calls s @ fx\<rparr>)
         | (Inr factory, fx) \<Rightarrow>
             (case py_getitem config (u ''endpoint'') of
                Inl e \<Rightarrow> (Inl e, s\<lparr>calls := calls s @ fx\<rparr>)
              | Inr endpoint \<Rightarrow>
                  (Inr factory, s\<lparr>calls := calls s @ fx @ [Listen endpoint factory]\<rparr>))))"

definition start_router_transport_ok ::
  "worker \<Rightarrow> pystr \<Rightarrow> json \<Rightarrow> transport_factory \<Rightarrow> nat \<Rightarrow> nat \<Rightarrow> (error + unit) \<times> worker" where
  "start_router_transport_ok s tid config factory port now =
     (Inr (), s\<lparr>transports :=
        AList.update tid
          \<lparr>transport_id = tid, transport_config = config, transport_factory = factory,
           transport_port = port, transport_created = now\<rparr>
          (transports s)\<rparr>)"

definition start_router_transport_fail :: "worker \<Rightarrow> error \<Rightarrow> (error + unit) \<times> worker" where
  "start_router_transport_fail s err = (Inl (ApplicationError cannot_listen), s)"

definition start_router_transport ::
  "env \<Rightarrow> worker \<Rightarrow> pystr \<Rightarrow> json \<Rightarrow> error + nat \<Rightarrow> nat \<Rightarrow> (error + unit) \<times> worker" where
  "start_router_transport env s tid config bind now =
     (case start_router_transport_begin env s tid config of
        (Inl e, s1) \<Rightarrow> (Inl e, s1)
      | (Inr factory, s1) \<Rightarrow>
          (case bind of
             Inl err \<Rightarrow> start_router_transport_fail s1 err
           | Inr port \<Rightarrow> start_router_transport_ok s1 tid config factory port now))"

text \<open>\<^verbatim>\<open>stop_router_transport\<close>, with the outcome of \<^verbatim>\<open>stopListening\<close>.\<close>

definition stop_router_transport ::
  "worker \<Rightarrow> pystr \<Rightarrow> error + unit \<Rightarrow> (error + unit) \<times> worker" where
  "stop_router_transport s tid stopped =
     (case map_of (transports s) tid of
        None \<Rightarrow> (Inl (ApplicationError not_running), s)
      | Some t \<Rightarrow>
          let s1 = s\<lparr>calls := calls s @ [StopListening (transport_port t)]\<rparr>
          in (case stopped of
                Inl err \<Rightarrow> (Inl (ApplicationError cannot_stop), s1)
              | Inr _ \<Rightarrow> (Inr (), s1\<lparr>transports := AList.delete tid (transports s1)\<rparr>)))"



section \<open>Unrecognized path types\<close>

text \<open>
  The type names on which \<^verbatim>\<open>_create_resource\<close> dispatches: the thirteen kinds of endpoint
  and the container \<^verbatim>\<open>path\<close>.  A path configuration has an unrecognized type when its own
  type is none of these, or when it is a container one of whose nested paths has one.
\<close>

definition recognized_types :: "json list" where
  "recognized_types =
     map (\<lambda>t. JStr (u t))
       [''websocket'', ''static'', ''wsgi'', ''redirect'', ''json'', ''cgi'', ''longpoll'',
        ''publisher'', ''webhook'', ''caller'', ''upload'', ''resource'', ''schemadoc'', ''path'']"

inductive has_unrecognized_type :: "json \<Rightarrow> bool" where
  here: "py_getitem path_config (u ''type'') = Inr ty \<Longrightarrow> ty \<notin> set recognized_types \<Longrightarrow>
           has_unrecognized_type path_config"
| below: "py_getitem path_config (u ''type'') = Inr (JStr (u ''path'')) \<Longrightarrow>
           py_get path_config (u ''paths'') (JObj []) = Inr (JObj nested_paths) \<Longrightarrow>
           map_of nested_paths k = Some v \<Longrightarrow> has_unrecognized_type v \<Longrightarrow>
           has_unrecognized_type path_config"

code_pred has_unrecognized_type .

text \<open>
  Modelled from the spec: \<^verbatim>\<open>checkconfig.check_router_transport\<close> is not part of the
  sources.  The spec says of the schema it enforces that the keys of \<^verbatim>\<open>paths\<close> of a
  transport each hold one of the resource-type configurations of the tree builder.  A
  validator knows the path types when it accepts no web transport one of whose paths has
  an unrecognized type.
\<close>

definition validator_knows_path_types :: "env \<Rightarrow> bool" where
  "validator_knows_path_types env =
     (\<forall>config paths k path_config.
        check_router_transport env config \<longrightarrow>
        py_getitem config (u ''type'') = Inr (JStr (u ''web'')) \<longrightarrow>
        py_getitem config (u ''paths'') = Inr (JObj paths) \<longrightarrow>
        map_of paths k = Some path_config \<longrightarrow> \<not> has_unrecognized_type path_config)"

text \<open>The requests for a listening port among the calls of the worker.\<close>

fun is_listen :: "effect \<Rightarrow> bool" where
  "is_listen (Listen endpoint factory) = True"
| "is_listen e = False"

section \<open>An environment for the examples\<close>

text \<open>
  A worker on a given interpreter whose validators accept every configuration, whose
  loader makes a component session out of every configuration and whose file system
  holds every directory.  The examples below run the operations in it.
\<close>

definition sample_env :: "pyver \<Rightarrow> env" where
  "sample_env pv =
     \<lparr>python = pv, HAS_WSGI = True, HAS_CGI = True,
      check_router_realm = (\<lambda>c. True),
      check_router_component = (\<lambda>c. True),
      check_router_transport = (\<lambda>c. True),
      utcstr = (\<lambda>t. replicate t (of_char CHR ''I'')),
      appsession_loader = (\<lambda>c. Inr 0),
      create_component = (\<lambda>loader realm extra. Inr (ComponentSession loader)),
      import_module = (\<lambda>m. Inl ImportError),
      module_has = (\<lambda>m obj. False),
      resource_filename = (\<lambda>package res. None),
      abspath_join = (\<lambda>d. u ''/node/'' @ d),
      default_temp_directory = u ''/tmp/crossbar-uploads'',
      isdir = (\<lambda>p. True),
      path_exists = (\<lambda>p. True),
      makedirs_ok = (\<lambda>p. True),
      wsgi_resource_ok = (\<lambda>m obj. True),
      make_resource = (\<lambda>klassname extra. None),
      parse_int = (\<lambda>t. None)\<rparr>"

section \<open>Basic facts\<close>

lemma u_eq_iff [simp]: "u a = u b \<longleftrightarrow> a = b"
  unfolding u_def by (simp add: inj_map_eq_map inj_on_def)

lemma dict_in_Nil [simp]: "\<not> dict_in k []"
  by (simp add: dict_in_def)

lemma dict_in_Cons [simp]: "dict_in k ((k', v) # d) \<longleftrightarrow> k = k' \<or> dict_in k d"
  by (simp add: dict_in_def)

lemma dict_in_update [simp]: "dict_in k (AList.update k' v d) \<longleftrightarrow> k = k' \<or> dict_in k d"
  by (auto simp: dict_in_def update_conv')

lemma dict_in_map_of: "dict_in k d \<longleftrightarrow> (\<exists>v. map_of d k = Some v)"
  by (simp add: dict_in_def)

lemma map_of_update_same [simp]: "map_of (AList.update k v d) k = Some v"
  by (simp add: update_conv')

lemmas eval_defs = Let_def sample_env_def onJoin_def py_getitem_def py_get_def py_contains_def

section \<open>Listing the realms\<close>

text \<open>
  C9.  In every state of the worker \<^verbatim>\<open>get_router_realms\<close> raises the bare exception
  \<^verbatim>\<open>Exception("not implemented")\<close>: the outcome is no fault of the management API and no
  list of realms, and the state of the worker, with all its registries, is what it was.
\<close>

theorem get_router_realms_raises:
  "fst (get_router_realms s) = Inl (PyException ''not implemented'')
   \<and> (\<forall>f. fst (get_router_realms s) \<noteq> Inl (ApplicationError f))
   \<and> (\<forall>rs. fst (get_router_realms s) \<noteq> Inr rs)
   \<and> snd (get_router_realms s) = s"
  by (simp add: get_router_realms_def)

section \<open>Stopping a component\<close>

lemma stop_router_component_absent:
  "\<not> dict_in cid (components s) \<Longrightarrow>
     stop_router_component s cid = (Inl (ApplicationError no_such_object), s)"
  by (simp add: stop_router_component_def)

text \<open>
  C3.  The claim says that stopping a registered component detaches its session, deletes
  it from the registry and returns.  The code does not: in every state of the worker,
  \<^verbatim>\<open>stop_router_component\<close> on an id that is in the components registry raises the fault
  \<^verbatim>\<open>cannot_stop\<close> and leaves the state as it was, the component still registered.
\<close>

theorem stop_router_component_cannot_stop:
  assumes "dict_in cid (components s)"
  shows "stop_router_component s cid = (Inl (ApplicationError cannot_stop), s)
         \<and> dict_in cid (components (snd (stop_router_component s cid)))"
  using assms by (simp add: stop_router_component_def session_factory_attr_def)

text \<open>
  On a worker that has started the realm \<open>r1\<close> of URI \<^verbatim>\<open>realm1\<close>, the component \<open>c1\<close> of
  a class of that realm is started and then stopped: the stop raises \<^verbatim>\<open>cannot_stop\<close> and
  \<open>c1\<close> stays registered.  Stopping an id that was never started raises
  \<^verbatim>\<open>no_such_object\<close>.
\<close>

theorem stop_router_component_cannot_stop_witness:
  "let env = sample_env Py3;
       realm_started = start_router_realm env (onJoin []) (u ''r1'')
                         (JObj [(u ''name'', JStr (u ''realm1''))]) None False 1 (Inr ());
       config = JObj [(u ''type'', JStr (u ''class'')),
                      (u ''classname'', JStr (u ''myapp.Component'')),
                      (u ''realm'', JStr (u ''realm1''))];
       started = start_router_component env (snd realm_started) (u ''c1'') config 7;
       s1 = snd started
   in fst realm_started = Inr ()
      \<and> fst started = Inr ()
      \<and> dict_in (u ''c1'') (components s1)
      \<and> stop_router_component s1 (u ''c1'') = (Inl (ApplicationError cannot_stop), s1)
      \<and> dict_in (u ''c1'') (components (snd (stop_router_component s1 (u ''c1''))))
      \<and> stop_router_component s1 (u ''c2'') = (Inl (ApplicationError no_such_object), s1)"
proof -
  define realm_started where
    "realm_started = start_router_realm (sample_env Py3) (onJoin []) (u ''r1'')
                       (JObj [(u ''name'', JStr (u ''realm1''))]) None False 1 (Inr ())"
  define config where
    "config = JObj [(u ''type'', JStr (u ''class'')),
                    (u ''classname'', JStr (u ''myapp.Component'')),
                    (u ''realm'', JStr (u ''realm1''))]"
  define started where
    "started = start_router_component (sample_env Py3) (snd realm_started) (u ''c1'') config 7"
  have r: "fst realm_started = Inr ()"
    by (simp add: realm_started_def eval_defs start_router_realm_def start_router_realm_begin_def
        start_router_realm_resume_def)
  have c: "fst started = Inr ()" "dict_in (u ''c1'') (components (snd started))"
    "\<not> dict_in (u ''c2'') (components (snd started))"
    by (simp_all add: started_def realm_started_def config_def eval_defs start_router_realm_def
        start_router_realm_begin_def start_router_realm_resume_def start_router_component_def)
  from stop_router_component_cannot_stop [OF c(2)] stop_router_component_absent [OF c(3)] r c
  show ?thesis
    unfolding Let_def realm_started_def [symmetric] config_def [symmetric] started_def [symmetric]
    by blast
qed

section \<open>Listing components and transports\<close>



section \<open>Starting a realm\<close>

lemma start_router_realm_begin_suspended:
  assumes "start_router_realm_begin env s rid config schemas trace now = (Inr x, s1)"
  shows "\<exists>realm. py_getitem config (u ''name'') = Inr realm
           \<and> map_of (realms s1) rid =
               Some \<lparr>realm_id = rid, realm_config = config,
                     realm_session = Some (RouterServiceSession realm schemas trace),
                     realm_created = now, realm_roles = [], realm_uplinks = []\<rparr>
           \<and> map_of (realm_to_id s1) realm = Some rid"
  using assms
  by (auto simp: start_router_realm_begin_def Let_def split: if_splits sum.splits)

lemma start_router_realm_begin_rejected:
  assumes "dict_in rid (realms s) \<or> \<not> check_router_realm env config
             \<or> (\<exists>e. py_getitem config (u ''name'') = Inl e)"
  shows "\<exists>e. start_router_realm_begin env s rid config schemas trace now = (Inl e, s)"
  using assms
  by (auto simp: start_router_realm_begin_def Let_def split: if_splits sum.splits)

text \<open>
  C1, as the claim states it, fails.  On a fresh worker the realm \<open>r1\<close> is started with the
  configuration \<^verbatim>\<open>{"name": "realm1"}\<close>.  When the call is suspended at
  \<^verbatim>\<open>yield extra['onready']\<close>, the signal has not fired, and the realm is in the registry
  and its URI in the index.  When the signal then fails, the call raises and the realm
  and its URI are still there.
\<close>

theorem start_router_realm_registered_while_starting:
  "let config = JObj [(u ''name'', JStr (u ''realm1''))];
       begun = start_router_realm_begin (sample_env Py3) (onJoin []) (u ''r1'') config None False 5;
       failed = start_router_realm (sample_env Py3) (onJoin []) (u ''r1'') config None False 5
                  (Inl (ExternalError 0))
   in fst begun = Inr ()
      \<and> dict_in (u ''r1'') (realms (snd begun))
      \<and> map_of (realm_to_id (snd begun)) (JStr (u ''realm1'')) = Some (u ''r1'')
      \<and> fst failed = Inl (ExternalError 0)
      \<and> dict_in (u ''r1'') (realms (snd failed))
      \<and> map_of (realm_to_id (snd failed)) (JStr (u ''realm1'')) = Some (u ''r1'')"
  by (simp add: eval_defs start_router_realm_def start_router_realm_begin_def
      start_router_realm_resume_def)

text \<open>
  C1, amended.  \<^verbatim>\<open>start_router_realm\<close> commits the realm into the registry and the
  URI-to-id index synchronously, after the duplicate check and the validation of the
  configuration and before it suspends to await the ready signal of the service session:
  whenever the call is suspended, the registry holds the realm under its id (with its
  configuration, its service session and its creation time) and the index maps the URI
  \<^verbatim>\<open>config['name']\<close> to the id; the code that runs after the signal changes no registry.
  When the id is already registered, the validator rejects the configuration or the
  configuration has no \<^verbatim>\<open>name\<close>, the call raises and leaves the state of the worker as
  it was.
\<close>

theorem start_router_realm_commits_before_suspending:
  "(fst (start_router_realm_begin env s rid config schemas trace now) = Inr () \<longrightarrow>
      (\<exists>realm. py_getitem config (u ''name'') = Inr realm
         \<and> map_of (realms (snd (start_router_realm_begin env s rid config schemas trace now))) rid =
             Some \<lparr>realm_id = rid, realm_config = config,
                   realm_session = Some (RouterServiceSession realm schemas trace),
                   realm_created = now, realm_roles = [], realm_uplinks = []\<rparr>
         \<and> map_of (realm_to_id (snd (start_router_realm_begin env s rid config schemas trace now)))
               realm = Some rid)
      \<and> (\<forall>s1. snd (start_router_realm_resume onready s1) = s1))
   \<and> (dict_in rid (realms s) \<or> \<not> check_router_realm env config
         \<or> (\<exists>e. py_getitem config (u ''name'') = Inl e) \<longrightarrow>
       (\<exists>e. start_router_realm env s rid config schemas trace now onready = (Inl e, s)))"
proof (intro conjI allI impI)
  assume "fst (start_router_realm_begin env s rid config schemas trace now) = Inr ()"
  then have b: "start_router_realm_begin env s rid config schemas trace now =
      (Inr (), snd (start_router_realm_begin env s rid config schemas trace now))"
    by (simp add: prod_eq_iff)
  from start_router_realm_begin_suspended [OF b]
  show "\<exists>realm. py_getitem config (u ''name'') = Inr realm
         \<and> map_of (realms (snd (start_router_realm_begin env s rid config schemas trace now))) rid =
             Some \<lparr>realm_id = rid, realm_config = config,
                   realm_session = Some (RouterServiceSession realm schemas trace),
                   realm_created = now, realm_roles = [], realm_uplinks = []\<rparr>
         \<and> map_of (realm_to_id (snd (start_router_realm_begin env s rid config schemas trace now)))
               realm = Some rid" .
next
  fix s1
  show "snd (start_router_realm_resume onready s1) = s1"
    by (simp add: start_router_realm_resume_def split: sum.splits)
next
  assume "dict_in rid (realms s) \<or> \<not> check_router_realm env config
         \<or> (\<exists>e. py_getitem config (u ''name'') = Inl e)"
  from start_router_realm_begin_rejected [OF this]
  obtain e where "start_router_realm_begin env s rid config schemas trace now = (Inl e, s)"
    by blast
  then show "\<exists>e. start_router_realm env s rid config schemas trace now onready = (Inl e, s)"
    by (simp add: start_router_realm_def)
qed

theorem start_router_realm_commits_before_suspending_witness:
  "let config = JObj [(u ''name'', JStr (u ''realm1''))];
       begun = start_router_realm_begin (sample_env Py3) (onJoin []) (u ''r1'') config None False 5
   in fst begun = Inr ()
      \<and> map_of (realms (snd begun)) (u ''r1'') =
             Some \<lparr>realm_id = u ''r1'', realm_config = config,
                   realm_session = Some (RouterServiceSession (JStr (u ''realm1'')) None False),
                   realm_created = 5, realm_roles = [], realm_uplinks = []\<rparr>
      \<and> map_of (realm_to_id (snd begun)) (JStr (u ''realm1'')) = Some (u ''r1'')
      \<and> snd (start_router_realm_resume (Inr ()) (snd begun)) = snd begun
      \<and> \<not> check_router_realm ((sample_env Py3)\<lparr>check_router_realm := (\<lambda>c. False)\<rparr>) config
      \<and> (\<exists>e. start_router_realm ((sample_env Py3)\<lparr>check_router_realm := (\<lambda>c. False)\<rparr>)
                (onJoin []) (u ''r1'') config None False 5 (Inr ()) = (Inl e, onJoin []))"
  using start_router_realm_commits_before_suspending
          [of "sample_env Py3" "onJoin []" "u ''r1''" "JObj [(u ''name'', JStr (u ''realm1''))]"
              None False 5 "Inr ()"]
        start_router_realm_commits_before_suspending
          [of "(sample_env Py3)\<lparr>check_router_realm := (\<lambda>c. False)\<rparr>" "onJoin []" "u ''r1''"
              "JObj [(u ''name'', JStr (u ''realm1''))]" None False 5 "Inr ()"]
  by (simp add: eval_defs start_router_realm_begin_def)

section \<open>Starting an entity twice\<close>

lemma start_router_realm_begin_dict_in:
  "start_router_realm_begin env s rid config schemas trace now = (Inr x, s1) \<Longrightarrow>
     dict_in rid (realms s1)"
  by (auto simp: start_router_realm_begin_def Let_def split: if_splits sum.splits)

lemma start_router_component_dict_in:
  "start_router_component env s cid config now = (Inr x, s1) \<Longrightarrow> dict_in cid (components s1)"
  by (auto simp: start_router_component_def Let_def split: if_splits sum.splits)

lemma start_router_transport_dict_in:
  "start_router_transport env s tid config bind now = (Inr x, s1) \<Longrightarrow> dict_in tid (transports s1)"
  by (auto simp: start_router_transport_def start_router_transport_ok_def
      start_router_transport_fail_def split: prod.splits sum.splits)

lemma start_router_realm_twice:
  "dict_in rid (realms s) \<Longrightarrow>
     start_router_realm env s rid config schemas trace now onready =
       (Inl (ApplicationError already_running), s)"
  by (simp add: start_router_realm_def start_router_realm_begin_def)

lemma start_router_component_twice:
  "dict_in cid (components s) \<Longrightarrow>
     start_router_component env s cid config now = (Inl (ApplicationError already_running), s)"
  by (simp add: start_router_component_def)

lemma start_router_transport_twice:
  "dict_in tid (transports s) \<Longrightarrow>
     start_router_transport env s tid config bind now =
       (Inl (ApplicationError already_running), s)"
  by (simp add: start_router_transport_def start_router_transport_begin_def)

text \<open>
  C2.  For each of the three kinds: after a start of an id that succeeded (for a realm,
  one that has reached its suspension point or has completed; for a transport, one whose
  bind has succeeded) and no stop, a second start of the same id, with whatever
  configuration, raises the fault \<^verbatim>\<open>already_running\<close> and leaves the state of the worker,
  and so the registry entry of the first instance, exactly as it was.
\<close>

theorem start_twice_already_running:
  "(start_router_realm_begin env s rid config schemas trace now = (Inr (), s1) \<longrightarrow>
      start_router_realm env s1 rid config' schemas' trace' now' onready =
        (Inl (ApplicationError already_running), s1))
   \<and> (start_router_component env s cid cconfig now = (Inr (), s2) \<longrightarrow>
      start_router_component env s2 cid cconfig' now' = (Inl (ApplicationError already_running), s2))
   \<and> (start_router_transport env s tid tconfig (Inr port) now = (Inr (), s3) \<longrightarrow>
      start_router_transport env s3 tid tconfig' bind now' =
        (Inl (ApplicationError already_running), s3))"
  by (auto dest!: start_router_realm_begin_dict_in start_router_component_dict_in
      start_router_transport_dict_in
      simp: start_router_realm_twice start_router_component_twice start_router_transport_twice)


theorem start_twice_already_running_witness:
  "let env = sample_env Py3; s = onJoin [];
       rconfig = JObj [(u ''name'', JStr (u ''realm1''))];
       s1 = snd (start_router_realm_begin env s (u ''r1'') rconfig None False 1);
       cconfig = JObj [(u ''type'', JStr (u ''class'')),
                       (u ''classname'', JStr (u ''myapp.Component'')),
                       (u ''realm'', JStr (u ''realm1''))];
       s2 = snd (start_router_component env s1 (u ''c1'') cconfig 2);
       tconfig = JObj [(u ''type'', JStr (u ''rawsocket'')),
                       (u ''endpoint'', JObj [(u ''type'', JStr (u ''tcp'')), (u ''port'', JInt 8080)])];
       s3 = snd (start_router_transport env s (u ''t1'') tconfig (Inr 4) 3)
   in fst (start_router_realm_begin env s (u ''r1'') rconfig None False 1) = Inr ()
      \<and> start_router_realm env s1 (u ''r1'') (JObj [(u ''name'', JStr (u ''realm2''))]) None True 7 (Inr ()) =
           (Inl (ApplicationError already_running), s1)
      \<and> fst (start_router_component env s1 (u ''c1'') cconfig 2) = Inr ()
      \<and> start_router_component env s2 (u ''c1'') (JObj []) 8 =
           (Inl (ApplicationError already_running), s2)
      \<and> fst (start_router_transport env s (u ''t1'') tconfig (Inr 4) 3) = Inr ()
      \<and> start_router_transport env s3 (u ''t1'') (JObj []) (Inr 5) 9 =
           (Inl (ApplicationError already_running), s3)"
proof -
  define env where "env = sample_env Py3"
  define s where "s = onJoin []"
  define rconfig where "rconfig = JObj [(u ''name'', JStr (u ''realm1''))]"
  define cconfig where
    "cconfig = JObj [(u ''type'', JStr (u ''class'')),
                     (u ''classname'', JStr (u ''myapp.Component'')),
                     (u ''realm'', JStr (u ''realm1''))]"
  define tconfig where
    "tconfig = JObj [(u ''type'', JStr (u ''rawsocket'')),
                     (u ''endpoint'', JObj [(u ''type'', JStr (u ''tcp'')), (u ''port'', JInt 8080)])]"
  define s1 where "s1 = snd (start_router_realm_begin env s (u ''r1'') rconfig None False 1)"
  define s2 where "s2 = snd (start_router_component env s1 (u ''c1'') cconfig 2)"
  define s3 where "s3 = snd (start_router_transport env s (u ''t1'') tconfig (Inr 4) 3)"
  have r: "fst (start_router_realm_begin env s (u ''r1'') rconfig None False 1) = Inr ()"
    by (simp add: env_def s_def rconfig_def eval_defs start_router_realm_begin_def)
  have c: "fst (start_router_component env s1 (u ''c1'') cconfig 2) = Inr ()"
    by (simp add: env_def s_def s1_def rconfig_def cconfig_def eval_defs
        start_router_realm_begin_def start_router_component_def)
  have t: "fst (start_router_transport env s (u ''t1'') tconfig (Inr 4) 3) = Inr ()"
    by (simp add: env_def s_def tconfig_def eval_defs start_router_transport_def
        start_router_transport_begin_def select_transport_factory_def
        start_router_transport_ok_def)
  have r': "start_router_realm_begin env s (u ''r1'') rconfig None False 1 = (Inr (), s1)"
    and c': "start_router_component env s1 (u ''c1'') cconfig 2 = (Inr (), s2)"
    and t': "start_router_transport env s (u ''t1'') tconfig (Inr 4) 3 = (Inr (), s3)"
    using r c t by (simp_all add: s1_def s2_def s3_def prod_eq_iff)
  from start_twice_already_running
         [where env = env and s = s and rid = "u ''r1''" and config = rconfig and schemas = None
            and trace = False and now = 1 and ?s1.0 = s1
            and config' = "JObj [(u ''name'', JStr (u ''realm2''))]" and schemas' = None
            and trace' = True and now' = 7 and onready = "Inr ()"]
       r'
  have 1: "start_router_realm env s1 (u ''r1'') (JObj [(u ''name'', JStr (u ''realm2''))]) None True 7 (Inr ()) =
           (Inl (ApplicationError already_running), s1)"
    by blast
  from start_twice_already_running
         [where env = env and s = s1 and cid = "u ''c1''" and cconfig = cconfig and now = 2
            and ?s2.0 = s2 and cconfig' = "JObj []" and now' = 8]
       c'
  have 2: "start_router_component env s2 (u ''c1'') (JObj []) 8 =
           (Inl (ApplicationError already_running), s2)"
    by blast
  from start_twice_already_running
         [where env = env and s = s and tid = "u ''t1''" and tconfig = tconfig and port = 4
            and now = 3 and ?s3.0 = s3 and tconfig' = "JObj []" and bind = "Inr 5" and now' = 9]
       t'
  have 3: "start_router_transport env s3 (u ''t1'') (JObj []) (Inr 5) 9 =
           (Inl (ApplicationError already_running), s3)"
    by blast
  from r c t 1 2 3 show ?thesis
    unfolding Let_def env_def s_def rconfig_def cconfig_def tconfig_def s1_def s2_def s3_def
    by blast
qed

text \<open>
  A transport enters the registry in the callback of its bind.  A second start that is
  issued while the first bind is still pending therefore passes the duplicate check and
  requests a second port; this is the window that the spec describes under concurrency.
\<close>

lemma start_router_transport_begin_while_binding:
  "let config = JObj [(u ''type'', JStr (u ''rawsocket'')),
                      (u ''endpoint'', JObj [(u ''type'', JStr (u ''tcp'')), (u ''port'', JInt 8080)])];
       first = start_router_transport_begin (sample_env Py3) (onJoin []) (u ''t1'') config;
       second = start_router_transport_begin (sample_env Py3) (snd first) (u ''t1'') config
   in fst first = Inr (WampRawSocketServerFactory config)
      \<and> fst second = Inr (WampRawSocketServerFactory config)
      \<and> length (filter is_listen (calls (snd second))) = 2"
  by (simp add: eval_defs start_router_transport_begin_def select_transport_factory_def)

section \<open>The bind of a transport\<close>

lemma start_router_transport_begin_pending:
  assumes "start_router_transport_begin env s tid config = (Inr factory, s1)"
  shows "transports s1 = transports s \<and> \<not> dict_in tid (transports s)
         \<and> check_router_transport env config
         \<and> (\<exists>endpoint. py_getitem config (u ''endpoint'') = Inr endpoint
               \<and> last (calls s1) = Listen endpoint factory)"
  using assms
  by (auto simp: start_router_transport_begin_def split: if_splits prod.splits sum.splits)

text \<open>
  C7.  When \<^verbatim>\<open>start_router_transport\<close> has accepted the configuration and requested the
  listening port for the factory it chose: if the bind succeeds, the call returns and the
  registry maps the id to the record of the id, the configuration, the factory and the
  port (created at the time of the callback); if the bind fails, the call raises the
  fault \<^verbatim>\<open>cannot_listen\<close>, the registry is the one from before the call and does not
  contain the id.  The failure callback changes nothing in whatever state it runs.
\<close>

theorem start_router_transport_bind_outcome:
  assumes "start_router_transport_begin env s tid config = (Inr factory, s1)"
  shows "fst (start_router_transport env s tid config (Inr port) now) = Inr ()
         \<and> map_of (transports (snd (start_router_transport env s tid config (Inr port) now))) tid =
             Some \<lparr>transport_id = tid, transport_config = config, transport_factory = factory,
                   transport_port = port, transport_created = now\<rparr>
         \<and> fst (start_router_transport env s tid config (Inl err) now) =
             Inl (ApplicationError cannot_listen)
         \<and> transports (snd (start_router_transport env s tid config (Inl err) now)) = transports s
         \<and> \<not> dict_in tid (transports (snd (start_router_transport env s tid config (Inl err) now)))
         \<and> (\<forall>s'. start_router_transport_fail s' err = (Inl (ApplicationError cannot_listen), s'))"
  using assms start_router_transport_begin_pending [OF assms]
  by (simp add: start_router_transport_def start_router_transport_ok_def
      start_router_transport_fail_def)

theorem start_router_transport_bind_outcome_witness:
  "let config = JObj [(u ''type'', JStr (u ''rawsocket'')),
                      (u ''endpoint'', JObj [(u ''type'', JStr (u ''tcp'')), (u ''port'', JInt 8080)])];
       env = sample_env Py3; s = onJoin []; tid = u ''t1''
   in start_router_transport_begin env s tid config =
        (Inr (WampRawSocketServerFactory config),
         s\<lparr>calls := [Listen (JObj [(u ''type'', JStr (u ''tcp'')), (u ''port'', JInt 8080)])
                        (WampRawSocketServerFactory config)]\<rparr>)
      \<and> map_of (transports (snd (start_router_transport env s tid config (Inr 1) 9))) tid =
             Some \<lparr>transport_id = tid, transport_config = config,
                   transport_factory = WampRawSocketServerFactory config,
                   transport_port = 1, transport_created = 9\<rparr>
      \<and> fst (start_router_transport env s tid config (Inl OSError) 9) =
             Inl (ApplicationError cannot_listen)
      \<and> \<not> dict_in tid (transports (snd (start_router_transport env s tid config (Inl OSError) 9)))"
proof -
  define config where "config = JObj [(u ''type'', JStr (u ''rawsocket'')),
                      (u ''endpoint'', JObj [(u ''type'', JStr (u ''tcp'')), (u ''port'', JInt 8080)])]"
  define s1 where "s1 = (onJoin [])\<lparr>calls := [Listen (JObj [(u ''type'', JStr (u ''tcp'')), (u ''port'', JInt 8080)])
                        (WampRawSocketServerFactory config)]\<rparr>"
  have b: "start_router_transport_begin (sample_env Py3) (onJoin []) (u ''t1'') config =
        (Inr (WampRawSocketServerFactory config), s1)"
    by (simp add: config_def s1_def eval_defs start_router_transport_begin_def
        select_transport_factory_def)
  from start_router_transport_bind_outcome [OF b, of 1 9 OSError] b
  show ?thesis
    by (simp add: Let_def config_def s1_def onJoin_def)
qed

section \<open>Starting an uplink\<close>

lemma start_router_realm_uplink_begin_placeholder:
  assumes "map_of (realms s) rid = Some rlm" "\<not> dict_in uid (realm_uplinks rlm)"
  shows "\<exists>rlm1. map_of (realms (snd (start_router_realm_uplink_begin s rid uid config))) rid = Some rlm1
           \<and> map_of (realm_uplinks rlm1) uid =
               Some \<lparr>uplink_id = uid, uplink_config = config, uplink_session = None\<rparr>"
  using assms
  by (auto simp: start_router_realm_uplink_begin_def Let_def split: sum.splits)

lemma start_router_realm_uplink_begin_exists:
  assumes "map_of (realms s) rid = Some rlm" "dict_in uid (realm_uplinks rlm)"
  shows "start_router_realm_uplink_begin s rid uid config = (Inl (ApplicationError already_exists), s)"
  using assms by (simp add: start_router_realm_uplink_begin_def)

text \<open>
  C8.  When the realm exists and has no uplink of the given id, the state in which
  \<^verbatim>\<open>start_router_realm_uplink\<close> leaves its synchronous part holds, in the uplink map of
  that realm, an entry for the uplink with its configuration and no session; the call is
  then suspended (the configuration of a registered realm has a \<^verbatim>\<open>name\<close>).  A second start
  of the same realm id and uplink id in that state raises the fault \<^verbatim>\<open>already_exists\<close> and
  changes nothing.
\<close>

theorem start_router_realm_uplink_placeholder:
  assumes "map_of (realms s) rid = Some rlm" "\<not> dict_in uid (realm_uplinks rlm)"
    and "s1 = snd (start_router_realm_uplink_begin s rid uid config)"
  shows "(\<exists>rlm1. map_of (realms s1) rid = Some rlm1
            \<and> map_of (realm_uplinks rlm1) uid =
                Some \<lparr>uplink_id = uid, uplink_config = config, uplink_session = None\<rparr>)
         \<and> ((\<exists>realm. py_getitem (realm_config rlm) (u ''name'') = Inr realm) \<longrightarrow>
              fst (start_router_realm_uplink_begin s rid uid config) = Inr ())
         \<and> start_router_realm_uplink_begin s1 rid uid config' =
              (Inl (ApplicationError already_exists), s1)"
proof -
  from start_router_realm_uplink_begin_placeholder [OF assms(1,2), of config]
  obtain rlm1 where r: "map_of (realms s1) rid = Some rlm1"
    "map_of (realm_uplinks rlm1) uid =
       Some \<lparr>uplink_id = uid, uplink_config = config, uplink_session = None\<rparr>"
    unfolding assms(3) by blast
  from r(2) have "dict_in uid (realm_uplinks rlm1)" by (simp add: dict_in_def)
  from start_router_realm_uplink_begin_exists [OF r(1) this]
  have "start_router_realm_uplink_begin s1 rid uid config' =
              (Inl (ApplicationError already_exists), s1)" .
  moreover have "(\<exists>realm. py_getitem (realm_config rlm) (u ''name'') = Inr realm) \<longrightarrow>
              fst (start_router_realm_uplink_begin s rid uid config) = Inr ()"
    using assms(1,2) by (auto simp: start_router_realm_uplink_begin_def Let_def)
  ultimately show ?thesis using r by blast
qed

theorem start_router_realm_uplink_placeholder_witness:
  "let rconfig = JObj [(u ''name'', JStr (u ''realm1''))];
       s = snd (start_router_realm_begin (sample_env Py3) (onJoin []) (u ''r1'') rconfig None False 1);
       uconfig = JObj [(u ''transport'', JStr (u ''ws://upstream''))];
       begun = start_router_realm_uplink_begin s (u ''r1'') (u ''up1'') uconfig;
       s1 = snd begun
   in (\<exists>rlm. map_of (realms s) (u ''r1'') = Some rlm \<and> \<not> dict_in (u ''up1'') (realm_uplinks rlm))
      \<and> fst begun = Inr ()
      \<and> (\<exists>rlm1. map_of (realms s1) (u ''r1'') = Some rlm1
            \<and> map_of (realm_uplinks rlm1) (u ''up1'') =
                Some \<lparr>uplink_id = u ''up1'', uplink_config = uconfig, uplink_session = None\<rparr>)
      \<and> start_router_realm_uplink_begin s1 (u ''r1'') (u ''up1'') (JObj []) =
              (Inl (ApplicationError already_exists), s1)"
proof -
  define rconfig where "rconfig = JObj [(u ''name'', JStr (u ''realm1''))]"
  define s where
    "s = snd (start_router_realm_begin (sample_env Py3) (onJoin []) (u ''r1'') rconfig None False 1)"
  define uconfig where "uconfig = JObj [(u ''transport'', JStr (u ''ws://upstream''))]"
  define rlm where
    "rlm = \<lparr>realm_id = u ''r1'', realm_config = rconfig,
            realm_session = Some (RouterServiceSession (JStr (u ''realm1'')) None False),
            realm_created = 1, realm_roles = [], realm_uplinks = []\<rparr>"
  have a: "map_of (realms s) (u ''r1'') = Some rlm"
    by (simp add: s_def rlm_def rconfig_def eval_defs start_router_realm_begin_def)
  have b: "\<not> dict_in (u ''up1'') (realm_uplinks rlm)"
    by (simp add: rlm_def)
  have n: "\<exists>realm. py_getitem (realm_config rlm) (u ''name'') = Inr realm"
    by (simp add: rlm_def rconfig_def py_getitem_def)
  from start_router_realm_uplink_placeholder [OF a b refl, of uconfig "JObj []"] n a b
  show ?thesis
    unfolding Let_def rconfig_def [symmetric] s_def [symmetric] uconfig_def [symmetric]
    by blast
qed


section \<open>Resolving the references of a component\<close>

lemma resolve_references_skip:
  "list_all (resolvable_reference conns) pre \<Longrightarrow>
     \<exists>refs'. resolve_references conns (pre @ rest) refs = resolve_references conns rest refs'"
proof (induction pre arbitrary: refs)
  case Nil
  show ?case by auto
next
  case (Cons r pre)
  from Cons.prems obtain ref i c where r: "r = JStr ref"
    "split_on (of_char CHR '':'') ref = [u ''connection'', i]" "map_of conns i = Some c"
    by (auto simp: resolvable_reference_def dict_in_def split: json.splits list.splits)
  from Cons.prems have "list_all (resolvable_reference conns) pre" by simp
  from Cons.IH [OF this, of "AList.update ref c refs"] r show ?case by simp
qed

lemma resolve_references_unsplit:
  "length (split_on (of_char CHR '':'') ref) \<noteq> 2 \<Longrightarrow>
     resolve_references conns (JStr ref # post) refs = Inl ValueError"
  by (auto split: list.splits)


lemma resolve_references_invalid:
  "resolve_references conns rs refs = Inl (ApplicationError invalid_configuration) \<Longrightarrow>
     \<exists>ref t i. JStr ref \<in> set rs \<and> split_on (of_char CHR '':'') ref = [t, i]
        \<and> (t \<noteq> u ''connection'' \<or> map_of conns i = None)"
proof (induction rs arbitrary: refs)
  case Nil
  then show ?case by simp
next
  case (Cons r rs)
  show ?case
  proof (cases r)
    case (JStr ref)
    show ?thesis
    proof (cases "\<exists>t i. split_on (of_char CHR '':'') ref = [t, i]")
      case False
      then have "resolve_references conns (r # rs) refs = Inl ValueError"
        unfolding JStr by (auto split: list.splits)
      with Cons.prems show ?thesis by simp
    next
      case True
      then obtain t i where sp: "split_on (of_char CHR '':'') ref = [t, i]" by blast
      show ?thesis
      proof (cases "t = u ''connection'' \<and> map_of conns i \<noteq> None")
        case False
        with sp JStr show ?thesis by auto
      next
        case True
        then obtain c where c: "map_of conns i = Some c" by auto
        with True sp JStr Cons.prems
        have "resolve_references conns rs (AList.update ref c refs) =
                Inl (ApplicationError invalid_configuration)"
          by simp
        from Cons.IH [OF this] show ?thesis by auto
      qed
    qed
  qed (use Cons.prems in simp_all)
qed


text \<open>
  C10, amended.  The references are resolved in the order of the list, and the first one
  that does not resolve ends the loop.  When every reference before a text that does not
  split at its colons into exactly two pieces is a resolvable connection reference, the
  loop, and with it \<^verbatim>\<open>start_router_component\<close> on an unused id and a configuration that
  the validator accepts, raises \<^verbatim>\<open>ValueError\<close> and leaves the state of the worker as it
  was.  Whenever the loop raises the fault \<^verbatim>\<open>invalid_configuration\<close>, some reference of the
  list splits into exactly two pieces and has an unknown type or an unresolved id.
\<close>

theorem reference_resolution_value_error:
  "(list_all (resolvable_reference conns) pre \<and> length (split_on (of_char CHR '':'') ref) \<noteq> 2 \<longrightarrow>
      resolve_references conns (pre @ JStr ref # post) refs = Inl ValueError)
   \<and> (list_all (resolvable_reference (connections s)) pre
        \<and> length (split_on (of_char CHR '':'') ref) \<noteq> 2
        \<and> \<not> dict_in cid (components s) \<and> check_router_component env config
        \<and> py_getitem config (u ''type'') = Inr ty
        \<and> py_getitem config (u ''references'') = Inr (JList (pre @ JStr ref # post)) \<longrightarrow>
      start_router_component env s cid config now = (Inl ValueError, s))
   \<and> (resolve_references conns rs refs = Inl (ApplicationError invalid_configuration) \<longrightarrow>
      (\<exists>ref t i. JStr ref \<in> set rs \<and> split_on (of_char CHR '':'') ref = [t, i]
         \<and> (t \<noteq> u ''connection'' \<or> map_of conns i = None)))"
proof (intro conjI impI)
  assume a: "list_all (resolvable_reference conns) pre \<and> length (split_on (of_char CHR '':'') ref) \<noteq> 2"
  from resolve_references_skip [of conns pre "JStr ref # post" refs] a
  obtain refs' where "resolve_references conns (pre @ JStr ref # post) refs =
      resolve_references conns (JStr ref # post) refs'" by blast
  moreover from a have "length (split_on (of_char CHR '':'') ref) \<noteq> 2" by simp
  ultimately show "resolve_references conns (pre @ JStr ref # post) refs = Inl ValueError"
    by (simp add: resolve_references_unsplit del: resolve_references.simps)
next
  assume a: "list_all (resolvable_reference (connections s)) pre
        \<and> length (split_on (of_char CHR '':'') ref) \<noteq> 2
        \<and> \<not> dict_in cid (components s) \<and> check_router_component env config
        \<and> py_getitem config (u ''type'') = Inr ty
        \<and> py_getitem config (u ''references'') = Inr (JList (pre @ JStr ref # post))"
  from resolve_references_skip [of "connections s" pre "JStr ref # post" "[]"] a
  obtain refs' where "resolve_references (connections s) (pre @ JStr ref # post) [] =
      resolve_references (connections s) (JStr ref # post) refs'" by blast
  moreover from a have "length (split_on (of_char CHR '':'') ref) \<noteq> 2" by simp
  ultimately have r: "resolve_references (connections s) (pre @ JStr ref # post) [] = Inl ValueError"
    by (simp add: resolve_references_unsplit del: resolve_references.simps)
  from a have g: "py_get config (u ''references'') (JList []) = Inr (JList (pre @ JStr ref # post))"
    by (auto simp: py_getitem_def py_get_def split: json.splits option.splits)
  from a have "\<not> dict_in cid (components s)" "check_router_component env config"
    "py_getitem config (u ''type'') = Inr ty" by simp_all
  then show "start_router_component env s cid config now = (Inl ValueError, s)"
    by (simp add: start_router_component_def g r)
next
  assume "resolve_references conns rs refs = Inl (ApplicationError invalid_configuration)"
  then show "\<exists>ref t i. JStr ref \<in> set rs \<and> split_on (of_char CHR '':'') ref = [t, i]
         \<and> (t \<noteq> u ''connection'' \<or> map_of conns i = None)"
    by (rule resolve_references_invalid)
qed


lemma split_on_examples:
  "split_on 58 (u ''foo'') = [u ''foo'']"
  "split_on 58 (u ''bogus:x'') = [u ''bogus'', u ''x'']"
  "split_on 58 (u ''connection:db'') = [u ''connection'', u ''db'']"
  "split_on 58 (u ''connection:a:b'') = [u ''connection'', u ''a'', u ''b'']"
  "split_on 58 (u ''connection:cache'') = [u ''connection'', u ''cache'']"
  by (simp_all add: u_def)

text \<open>
  C10, as the claim states it, fails.  The references \<^verbatim>\<open>['bogus:x', 'foo']\<close> contain the
  text \<^verbatim>\<open>foo\<close>, which splits into one piece, and \<^verbatim>\<open>start_router_component\<close> raises the
  fault \<^verbatim>\<open>invalid_configuration\<close>, for the first reference, and no \<^verbatim>\<open>ValueError\<close>.
\<close>

theorem reference_resolution_first_failure_wins:
  "let config = JObj [(u ''type'', JStr (u ''class'')),
                      (u ''classname'', JStr (u ''myapp.Component'')),
                      (u ''realm'', JStr (u ''realm1'')),
                      (u ''references'', JList [JStr (u ''bogus:x''), JStr (u ''foo'')])]
   in length (split_on (of_char CHR '':'') (u ''foo'')) = 1
      \<and> start_router_component (sample_env Py3) (onJoin []) (u ''c1'') config 0 =
           (Inl (ApplicationError invalid_configuration), onJoin [])"
  by (simp add: eval_defs start_router_component_def split_on_examples)


theorem reference_resolution_value_error_witness:
  "let conns = [(u ''db'', 0)];
       pre = [JStr (u ''connection:db'')];
       bad = u ''connection:a:b'';
       post = [JStr (u ''bogus:x'')];
       config = JObj [(u ''type'', JStr (u ''class'')),
                      (u ''classname'', JStr (u ''myapp.Component'')),
                      (u ''realm'', JStr (u ''realm1'')),
                      (u ''references'', JList (pre @ JStr bad # post))];
       rs = [JStr (u ''connection:db''), JStr (u ''connection:cache'')]
   in list_all (resolvable_reference conns) pre
      \<and> length (split_on (of_char CHR '':'') bad) = 3
      \<and> resolve_references conns (pre @ JStr bad # post) [] = Inl ValueError
      \<and> start_router_component (sample_env Py3) (onJoin conns) (u ''c1'') config 0 =
           (Inl ValueError, onJoin conns)
      \<and> resolve_references conns rs [] = Inl (ApplicationError invalid_configuration)
      \<and> (\<exists>ref t i. JStr ref \<in> set rs \<and> split_on (of_char CHR '':'') ref = [t, i]
             \<and> (t \<noteq> u ''connection'' \<or> map_of conns i = None))"
proof -
  define conns :: "(pystr, nat) dict" where "conns = [(u ''db'', 0)]"
  define pre where "pre = [JStr (u ''connection:db'')]"
  define bad where "bad = u ''connection:a:b''"
  define post where "post = [JStr (u ''bogus:x'')]"
  define config where "config = JObj [(u ''type'', JStr (u ''class'')),
                      (u ''classname'', JStr (u ''myapp.Component'')),
                      (u ''realm'', JStr (u ''realm1'')),
                      (u ''references'', JList (pre @ JStr bad # post))]"
  define rs where "rs = [JStr (u ''connection:db''), JStr (u ''connection:cache'')]"
  have h1: "list_all (resolvable_reference conns) pre"
    by (simp add: pre_def conns_def resolvable_reference_def split_on_examples)
  have h2: "length (split_on (of_char CHR '':'') bad) = 3"
    by (simp add: bad_def split_on_examples)
  have h3: "\<not> dict_in (u ''c1'') (components (onJoin conns))"
    "check_router_component (sample_env Py3) config"
    "py_getitem config (u ''type'') = Inr (JStr (u ''class''))"
    "py_getitem config (u ''references'') = Inr (JList (pre @ JStr bad # post))"
    "connections (onJoin conns) = conns"
    by (simp_all add: eval_defs config_def)
  have h4: "resolve_references conns rs [] = Inl (ApplicationError invalid_configuration)"
    by (simp add: rs_def split_on_examples conns_def)
  note t = reference_resolution_value_error
    [where conns = conns and pre = pre and ref = bad and post = post
       and refs = "[]" and s = "onJoin conns" and cid = "u ''c1''" and env = "sample_env Py3"
       and config = config and ty = "JStr (u ''class'')" and now = 0 and rs = rs]
  from t h1 h2 h3 h4 show ?thesis
    unfolding Let_def conns_def [symmetric] pre_def [symmetric] bad_def [symmetric]
      post_def [symmetric] config_def [symmetric] rs_def [symmetric]
    by simp
qed



section \<open>Attaching the children of a resource\<close>

lemma encode_utf8_ascii:
  "list_all (\<lambda>c. (of_char c :: nat) < 128) b \<Longrightarrow> encode_utf8 pv (u b) = Some b"
  by (induction b) (simp_all add: u_def utf8_char_def)

lemma text_ne_bytes_u [simp]:
  "text_ne_bytes Py2 (u a) b \<longleftrightarrow> a \<noteq> b" "text_ne_bytes Py3 t b"
  by (simp_all add: text_ne_bytes_def u_def [symmetric])

text \<open>
  What a successful run of the loop attaches: the keys that pass the test against the
  root path, in ascending order, each under its UTF-8 encoding.  Under Python 3 these are
  all the keys, and the root path is among the children; under Python 2 they are the
  keys other than the root path.
\<close>

lemma children_of_putChild [simp]:
  "children_of (putChild r n c) = AList.update n c (children_of r)"
  by (cases r) simp

lemma add_paths_loop_attachments:
  assumes "add_paths_loop pv mk paths keys resource = (Inr resource', fx)"
  shows "\<exists>cs. children_of resource' = foldl (\<lambda>d (n, c). AList.update n c d) (children_of resource) cs
            \<and> map (\<lambda>(n, c). Some n) cs =
                map (encode_utf8 pv) (filter (\<lambda>k. text_ne_bytes pv k ''/'') keys)"
  using assms
proof (induction keys arbitrary: resource fx)
  case Nil
  then show ?case by simp
next
  case (Cons path rest)
  from Cons.prems obtain webPath where enc: "encode_utf8 pv path = Some webPath"
    by (auto split: option.splits)
  show ?case
  proof (cases "text_ne_bytes pv path ''/''")
    case False
    with Cons.prems enc have "add_paths_loop pv mk paths rest resource = (Inr resource', fx)"
      by simp
    from Cons.IH [OF this] False show ?thesis by simp
  next
    case True
    with Cons.prems enc obtain pc child fx1 fx2 where
      pc: "map_of paths path = Some pc" "mk pc = (Inr child, fx1)"
      and rest: "add_paths_loop pv mk paths rest (putChild resource webPath child) = (Inr resource', fx2)"
      by (auto split: option.splits prod.splits sum.splits)
    from Cons.IH [OF rest] obtain cs where
      cs: "children_of resource' =
             foldl (\<lambda>d (n, c). AList.update n c d) (AList.update webPath child (children_of resource)) cs"
          "map (\<lambda>(n, c). Some n) cs =
             map (encode_utf8 pv) (filter (\<lambda>k. text_ne_bytes pv k ''/'') rest)"
      by auto
    show ?thesis
      by (rule exI [of _ "(webPath, child) # cs"]) (simp add: cs True enc)
  qed
qed

lemma sorted_sort_dict_keys:
  "sorted (sort (dict_keys paths)) \<and> distinct (sort (dict_keys paths))
   \<and> set (sort (dict_keys paths)) = fst ` set paths"
  by (simp add: dict_keys_def)

lemma add_paths_attachments:
  assumes "add_paths pv mk resource paths = (Inr resource', fx)"
  shows "\<exists>keys cs. sorted keys \<and> distinct keys \<and> set keys = fst ` set paths
            \<and> children_of resource' =
                foldl (\<lambda>d (n, c). AList.update n c d) (children_of resource) cs
            \<and> map (\<lambda>(n, c). Some n) cs =
                map (encode_utf8 pv)
                  (case pv of Py2 \<Rightarrow> filter (\<lambda>k. k \<noteq> u ''/'') keys | Py3 \<Rightarrow> keys)"
proof -
  from add_paths_loop_attachments [OF assms [unfolded add_paths_def]]
  obtain cs where cs:
    "children_of resource' = foldl (\<lambda>d (n, c). AList.update n c d) (children_of resource) cs"
    "map (\<lambda>(n, c). Some n) cs =
       map (encode_utf8 pv) (filter (\<lambda>k. text_ne_bytes pv k ''/'') (sort (dict_keys paths)))"
    by blast
  have "filter (\<lambda>k. text_ne_bytes pv k ''/'') keys =
          (case pv of Py2 \<Rightarrow> filter (\<lambda>k. k \<noteq> u ''/'') keys | Py3 \<Rightarrow> keys)" for keys
    by (cases pv) (simp_all add: text_ne_bytes_def u_def)
  with cs sorted_sort_dict_keys [of paths] show ?thesis
    by (intro exI [of _ "sort (dict_keys paths)"] exI [of _ cs]) simp
qed




lemma dict_in_foldl_update:
  "dict_in n (foldl (\<lambda>d (n, c). AList.update n c d) d cs) \<longleftrightarrow> dict_in n d \<or> n \<in> fst ` set cs"
proof (induction cs arbitrary: d)
  case Nil
  show ?case by simp
next
  case (Cons x cs)
  obtain m c where x: "x = (m, c)" by (cases x)
  show ?case unfolding x by (simp add: Cons.IH) blast
qed


lemma utf8_char_single:
  assumes "utf8_char pv c = Some [b]"
  shows "c < 128 \<and> b = char_of c"
proof (cases "c < 128")
  case True
  with assms show ?thesis by (simp add: utf8_char_def)
next
  case False
  with assms show ?thesis
    by (simp add: utf8_char_def split: if_splits)
qed

lemma utf8_char_nonempty: "utf8_char pv c = Some bs \<Longrightarrow> bs \<noteq> []"
  by (auto simp: utf8_char_def split: if_splits)


lemma encode_utf8_slash:
  assumes "encode_utf8 pv k = Some ''/''"
  shows "k = u ''/''"
proof (cases k)
  case Nil
  with assms show ?thesis by simp
next
  case (Cons c cs)
  with assms obtain bs r where 1: "utf8_char pv c = Some bs" "encode_utf8 pv cs = Some r"
    "bs @ r = ''/''"
    by (auto split: option.splits)
  from utf8_char_nonempty [OF 1(1)] 1(3) have bs: "bs = ''/''" and r: "r = []"
    by (cases bs; simp)+
  from utf8_char_single [OF 1(1) [unfolded bs]] have c: "c < 128" "char_of c = CHR ''/''"
    by simp_all
  from c(2) have "of_char (char_of c) = (of_char CHR ''/'' :: nat)" by (simp only:)
  with c(1) have c47: "c = 47" by simp
  have "cs = []"
  proof (cases cs)
    case (Cons d ds)
    with 1(2) r obtain bs' where "utf8_char pv d = Some bs'" "bs' = []"
      by (auto split: option.splits)
    with utf8_char_nonempty show ?thesis by blast
  qed simp
  with c47 Cons show ?thesis by (simp add: u_def)
qed


lemma add_paths_root_child_python3:
  assumes "add_paths Py3 mk resource paths = (Inr resource', fx)" "dict_in (u ''/'') paths"
  shows "dict_in ''/'' (children_of resource')"
proof -
  from add_paths_attachments [OF assms(1)] obtain keys cs where
    k: "set keys = fst ` set paths"
    and c: "children_of resource' = foldl (\<lambda>d (n, c). AList.update n c d) (children_of resource) cs"
    and n: "map (\<lambda>(n, c). Some n) cs = map (encode_utf8 Py3) keys"
    by auto
  from assms(2) obtain v where "map_of paths (u ''/'') = Some v" by (auto simp: dict_in_def)
  then have "(u ''/'', v) \<in> set paths" by (rule map_of_SomeD)
  then have "u ''/'' \<in> set keys" unfolding k by (rule rev_image_eqI) simp
  then have "encode_utf8 Py3 (u ''/'') \<in> set (map (encode_utf8 Py3) keys)" by simp
  then have "Some ''/'' \<in> set (map (\<lambda>(n, c). Some n) cs)"
    by (simp add: n encode_utf8_ascii)
  then have "''/'' \<in> fst ` set cs" by (auto simp: case_prod_beta)
  then show ?thesis by (simp add: c dict_in_foldl_update)
qed

lemma add_paths_no_root_child_python2:
  assumes "add_paths Py2 mk resource paths = (Inr resource', fx)"
    "\<not> dict_in ''/'' (children_of resource)"
  shows "\<not> dict_in ''/'' (children_of resource')"
proof -
  from add_paths_attachments [OF assms(1)] obtain keys cs where
    c: "children_of resource' = foldl (\<lambda>d (n, c). AList.update n c d) (children_of resource) cs"
    and n: "map (\<lambda>(n, c). Some n) cs = map (encode_utf8 Py2) (filter (\<lambda>k. k \<noteq> u ''/'') keys)"
    by auto
  have "''/'' \<notin> fst ` set cs"
  proof
    assume "''/'' \<in> fst ` set cs"
    then have "Some ''/'' \<in> set (map (\<lambda>(n, c). Some n) cs)" by (force simp: case_prod_beta)
    then obtain k where "k \<noteq> u ''/''" "encode_utf8 Py2 k = Some ''/''"
      unfolding n by auto
    with encode_utf8_slash show False by blast
  qed
  with assms(2) show ?thesis by (simp add: c dict_in_foldl_update)
qed

text \<open>
  C4.  The claim says that the root path \<^verbatim>\<open>/\<close> is never attached as a child.  Under
  Python 3 the code attaches it: for the paths \<^verbatim>\<open>b\<close>, \<^verbatim>\<open>/\<close> and \<^verbatim>\<open>a\<close> the loop attaches the
  children \<^verbatim>\<open>/\<close>, \<^verbatim>\<open>a\<close> and \<^verbatim>\<open>b\<close>, in this order, because the comparison
  \<^verbatim>\<open>path != b"/"\<close> of a text with a byte string is true for every text.  Under Python 2
  the same call attaches \<^verbatim>\<open>a\<close> and \<^verbatim>\<open>b\<close> only.
\<close>

theorem add_paths_attaches_root_on_python3:
  "let paths = [(u ''b'', JObj [(u ''type'', JStr (u ''json'')), (u ''value'', JInt 2)]),
                (u ''/'', JObj [(u ''type'', JStr (u ''json'')), (u ''value'', JInt 0)]),
                (u ''a'', JObj [(u ''type'', JStr (u ''json'')), (u ''value'', JInt 1)])];
       root = Resource (JsonResource (JInt 0)) [];
       mk = (\<lambda>pv pc. create_resource (sample_env pv) (onJoin []) pc True)
   in add_paths Py3 (mk Py3) root paths =
        (Inr (Resource (JsonResource (JInt 0))
               [(''/'', Resource (JsonResource (JInt 0)) []),
                (''a'', Resource (JsonResource (JInt 1)) []),
                (''b'', Resource (JsonResource (JInt 2)) [])]), [])
      \<and> add_paths Py2 (mk Py2) root paths =
        (Inr (Resource (JsonResource (JInt 0))
               [(''a'', Resource (JsonResource (JInt 1)) []),
                (''b'', Resource (JsonResource (JInt 2)) [])]), [])"
proof -
  define paths where
    "paths = [(u ''b'', JObj [(u ''type'', JStr (u ''json'')), (u ''value'', JInt 2)]),
              (u ''/'', JObj [(u ''type'', JStr (u ''json'')), (u ''value'', JInt 0)]),
              (u ''a'', JObj [(u ''type'', JStr (u ''json'')), (u ''value'', JInt 1)])]"
  have keys: "sort (dict_keys paths) = [u ''/'', u ''a'', u ''b'']"
    by (simp add: paths_def dict_keys_def u_def)
  have lookups: "map_of paths (u ''/'') = Some (JObj [(u ''type'', JStr (u ''json'')), (u ''value'', JInt 0)])"
    "map_of paths (u ''a'') = Some (JObj [(u ''type'', JStr (u ''json'')), (u ''value'', JInt 1)])"
    "map_of paths (u ''b'') = Some (JObj [(u ''type'', JStr (u ''json'')), (u ''value'', JInt 2)])"
    by (simp_all add: paths_def)
  have mk: "create_resource env s (JObj [(u ''type'', JStr (u ''json'')), (u ''value'', v)]) nested =
      (Inr (Resource (JsonResource v) []), [])" for env s v nested
    by (simp add: create_resource.simps py_getitem_def create_json_def)
  show ?thesis
    unfolding Let_def paths_def [symmetric]
    by (simp add: add_paths_def keys lookups mk encode_utf8_ascii)
qed

section \<open>A web transport with an unrecognized path type\<close>

lemma create_resource_unrecognized:
  assumes "py_getitem path_config (u ''type'') = Inr ty" "ty \<notin> set recognized_types"
  shows "create_resource env s path_config nested = (Inl (ApplicationError invalid_configuration), [])"
  using assms by (simp add: create_resource.simps recognized_types_def)

lemma add_paths_loop_fails:
  assumes "k \<in> set keys" "map_of paths k = Some v" "isl (fst (mk v))" "text_ne_bytes pv k ''/''"
  shows "isl (fst (add_paths_loop pv mk paths keys resource))"
  using assms(1)
proof (induction keys arbitrary: resource)
  case Nil
  then show ?case by simp
next
  case (Cons path rest)
  show ?case
  proof (cases "path = k")
    case True
    with assms(2-4) show ?thesis
      by (cases "mk v") (auto split: option.splits sum.splits)
  next
    case False
    with Cons.prems have "k \<in> set rest" by simp
    from Cons.IH [OF this] show ?thesis
      by (simp add: case_prod_beta split: option.splits sum.splits)
  qed
qed

lemma mem_sort_dict_keys: "map_of paths k = Some v \<Longrightarrow> k \<in> set (sort (dict_keys paths))"
  by (auto simp: dict_keys_def dest: map_of_SomeD intro: rev_image_eqI)

lemma add_paths_fails:
  assumes "map_of paths k = Some v" "isl (fst (mk v))" "k \<noteq> u ''/''"
  shows "isl (fst (add_paths pv mk resource paths))"
proof -
  from assms(3) have "text_ne_bytes pv k ''/''"
    by (cases pv) (auto simp: text_ne_bytes_def u_def)
  with assms(1,2) mem_sort_dict_keys [OF assms(1)] show ?thesis
    unfolding add_paths_def by (blast intro: add_paths_loop_fails)
qed

lemma create_resource_fails:
  assumes "has_unrecognized_type path_config"
  shows "isl (fst (create_resource env s path_config nested))"
  using assms
proof (induction arbitrary: nested)
  case (here path_config ty)
  then show ?case by (simp add: create_resource_unrecognized)
next
  case (below path_config nested_paths k v)
  note e = below.IH [of True]
  show ?case
  proof (cases "k = u ''/''")
    case True
    with below.hyps e show ?thesis
      by (auto simp: create_resource.simps [of env s path_config] case_prod_beta split: sum.splits)
  next
    case False
    from add_paths_fails [OF below.hyps(3), of "\<lambda>pc. create_resource env s pc True", OF e False]
    have "isl (fst (add_paths (python env) (\<lambda>pc. create_resource env s pc True) r nested_paths))"
      for r .
    with below.hyps show ?thesis
      by (auto simp: create_resource.simps [of env s path_config] case_prod_beta
          split: sum.splits option.splits)
  qed
qed


lemma creators_no_listen:
  "filter is_listen (snd (create_websocket pc)) = []"
  "filter is_listen (snd (create_static env pc)) = []"
  "filter is_listen (snd (create_wsgi env pc nested)) = []"
  "filter is_listen (snd (create_redirect pc)) = []"
  "filter is_listen (snd (create_json pc)) = []"
  "filter is_listen (snd (create_cgi env pc)) = []"
  "filter is_listen (snd (create_longpoll pc)) = []"
  "filter is_listen (snd (create_bridge wrap pc)) = []"
  "filter is_listen (snd (create_upload env pc)) = []"
  "filter is_listen (snd (create_custom env pc)) = []"
  "filter is_listen (snd (create_schemadoc s pc)) = []"
  by (auto simp: create_websocket_def create_static_def create_wsgi_def create_redirect_def
      create_json_def create_cgi_def create_longpoll_def create_bridge_def create_upload_def
      create_custom_def create_schemadoc_def Let_def
      split: sum.splits option.splits json.splits if_splits prod.splits)

lemma add_paths_loop_no_listen:
  assumes "\<And>pc. pc \<in> snd ` set paths \<Longrightarrow> filter is_listen (snd (mk pc)) = []"
  shows "filter is_listen (snd (add_paths_loop pv mk paths keys resource)) = []"
proof (induction keys arbitrary: resource)
  case Nil
  show ?case by simp
next
  case (Cons path rest)
  have "filter is_listen (snd (mk pc)) = []" if "map_of paths path = Some pc" for pc
    using that assms by (force dest: map_of_SomeD)
  with Cons.IH show ?case
    by (auto simp: case_prod_beta split: option.splits sum.splits)
qed

lemma add_paths_no_listen:
  assumes "\<And>pc. pc \<in> snd ` set paths \<Longrightarrow> filter is_listen (snd (mk pc)) = []"
  shows "filter is_listen (snd (add_paths pv mk resource paths)) = []"
  unfolding add_paths_def using assms by (rule add_paths_loop_no_listen)

lemma create_resource_no_listen:
  "filter is_listen (snd (create_resource env s path_config nested)) = []"
proof (induction env s path_config nested rule: create_resource.induct)
  case (1 env s path_config nested)
  show ?case
  proof (cases "py_getitem path_config (u ''type'')")
    case (Inl e)
    then show ?thesis by (simp add: create_resource.simps [of env s path_config])
  next
    case (Inr ty)
    show ?thesis
    proof (cases "ty = JStr (u ''path'')")
      case False
      with Inr show ?thesis
        by (simp add: create_resource.simps [of env s path_config] creators_no_listen)
    next
      case True
      show ?thesis
      proof (cases "py_get path_config (u ''paths'') (JObj [])")
        case (Inl e)
        with Inr True show ?thesis
          by (simp add: create_resource.simps [of env s path_config])
      next
        case paths: (Inr x)
        show ?thesis
        proof (cases "as_paths x")
          case (Inl e)
          with Inr True paths show ?thesis
            by (simp add: create_resource.simps [of env s path_config])
        next
          case np: (Inr nested_paths)
          define rootres where
            "rootres = (case map_of nested_paths (u ''/'') of
                          None \<Rightarrow> (Inr (Resource (Resource404 []) []), [])
                        | Some root_config \<Rightarrow> create_resource env s root_config True)"
          have root: "filter is_listen (snd (create_resource env s rc True)) = []"
            if "map_of nested_paths (u ''/'') = Some rc" for rc
            using "1.IH"(1) [OF Inr _ _ _ _ _ _ _ _ _ _ _ _ _ True paths np that] True
            by simp
          then have r0: "filter is_listen (snd rootres) = []"
            by (simp add: rootres_def split: option.splits)
          have unfold: "create_resource env s path_config nested =
              (case rootres of
                 (Inl e, fx) \<Rightarrow> (Inl e, fx)
               | (Inr nested_resource, fx) \<Rightarrow>
                   (case add_paths (python env) (\<lambda>pc. create_resource env s pc True)
                           nested_resource nested_paths of
                      (r, fx') \<Rightarrow> (r, fx @ fx')))"
            using Inr True paths np
            by (simp add: create_resource.simps [of env s path_config] rootres_def)
          show ?thesis
          proof (cases "fst rootres")
            case (Inl e)
            with r0 show ?thesis by (simp add: unfold case_prod_beta)
          next
            case bb: (Inr bb)
            have sub: "filter is_listen (snd (create_resource env s pc True)) = []"
              if "pc \<in> snd ` set nested_paths" for pc
              using "1.IH"(2) [OF Inr _ _ _ _ _ _ _ _ _ _ _ _ _ True paths np _ bb that,
                  of "snd rootres"] True
              by (simp add: rootres_def)
            from add_paths_no_listen [of nested_paths "\<lambda>pc. create_resource env s pc True", OF sub]
            have "filter is_listen (snd (add_paths (python env)
                     (\<lambda>pc. create_resource env s pc True) bb nested_paths)) = []"
              by blast
            with r0 bb show ?thesis by (simp add: unfold case_prod_beta)
          qed
        qed
      qed
    qed
  qed
qed


lemma web_site_no_effects:
  "filter is_listen (snd (web_transport_factory env s config)) = []"
proof -
  have sub: "filter is_listen (snd (add_paths (python env) (\<lambda>pc. create_resource env s pc True) r ps)) = []"
    for r ps
    by (rule add_paths_no_listen) (rule create_resource_no_listen)
  show ?thesis
    by (auto simp: web_transport_factory_def case_prod_beta create_resource_no_listen sub
        split: sum.splits json.splits option.splits)
qed

lemma select_transport_factory_no_listen:
  "filter is_listen (snd (select_transport_factory env s config)) = []"
  by (auto simp: select_transport_factory_def web_site_no_effects split: sum.splits)

lemma web_transport_factory_fails:
  assumes "py_getitem config (u ''paths'') = Inr (JObj paths)"
    and "map_of paths k = Some path_config" "has_unrecognized_type path_config"
  shows "isl (fst (web_transport_factory env s config))"
proof (cases "k = u ''/''")
  case True
  from create_resource_fails [OF assms(3)]
  have "isl (fst (create_resource env s path_config False))" .
  with True assms(1,2) show ?thesis
    by (auto simp: web_transport_factory_def case_prod_beta split: sum.splits)
next
  case False
  from create_resource_fails [OF assms(3)]
  have "isl (fst (create_resource env s path_config True))" .
  from add_paths_fails [OF assms(2), of "\<lambda>pc. create_resource env s pc True", OF this False]
  have "isl (fst (add_paths (python env) (\<lambda>pc. create_resource env s pc True) r paths))" for r .
  then have "fst (add_paths (python env) (\<lambda>pc. create_resource env s pc True) r paths) \<noteq> Inr x"
    for r x by (metis sum.disc(2))
  with assms(1) show ?thesis
    by (auto simp: web_transport_factory_def case_prod_beta split: sum.splits option.splits)
qed

text \<open>
  C5.  A web transport is started under an unused id, and one of the paths of its
  configuration has an unrecognized type.  Then \<^verbatim>\<open>start_router_transport\<close> raises: no
  transport is added to the registry and no listening port is requested; and when the
  validator knows the path types, the fault is \<^verbatim>\<open>invalid_configuration\<close> and the state of
  the worker is what it was.  The tree builder itself answers every path configuration
  whose type it does not recognize with the fault \<^verbatim>\<open>invalid_configuration\<close>.
\<close>

theorem start_router_transport_unrecognized_path:
  assumes "\<not> dict_in tid (transports s)"
    and "py_getitem config (u ''type'') = Inr (JStr (u ''web''))"
    and "py_getitem config (u ''paths'') = Inr (JObj paths)"
    and "map_of paths k = Some path_config" "has_unrecognized_type path_config"
  shows "(\<exists>e s'. start_router_transport env s tid config bind now = (Inl e, s')
            \<and> transports s' = transports s \<and> \<not> dict_in tid (transports s')
            \<and> filter is_listen (calls s') = filter is_listen (calls s)
            \<and> (validator_knows_path_types env \<longrightarrow>
                 e = ApplicationError invalid_configuration \<and> s' = s))
         \<and> (\<forall>pc ty nested. py_getitem pc (u ''type'') = Inr ty \<and> ty \<notin> set recognized_types \<longrightarrow>
               create_resource env s pc nested = (Inl (ApplicationError invalid_configuration), []))"
proof (intro conjI allI impI)
  show "create_resource env s pc nested = (Inl (ApplicationError invalid_configuration), [])"
    if "py_getitem pc (u ''type'') = Inr ty \<and> ty \<notin> set recognized_types" for pc ty nested
    using that by (simp add: create_resource_unrecognized)
next
  show "\<exists>e s'. start_router_transport env s tid config bind now = (Inl e, s')
            \<and> transports s' = transports s \<and> \<not> dict_in tid (transports s')
            \<and> filter is_listen (calls s') = filter is_listen (calls s)
            \<and> (validator_knows_path_types env \<longrightarrow>
                 e = ApplicationError invalid_configuration \<and> s' = s)"
  proof (cases "check_router_transport env config")
    case False
    with assms(1) show ?thesis
      by (simp add: start_router_transport_def start_router_transport_begin_def)
  next
    case True
    with assms(2-5) have nv: "\<not> validator_knows_path_types env"
      unfolding validator_knows_path_types_def by blast
    from web_transport_factory_fails [OF assms(3-5)] assms(2)
    have "isl (fst (select_transport_factory env s config))"
      by (simp add: select_transport_factory_def)
    then obtain e fx where f: "select_transport_factory env s config = (Inl e, fx)"
      by (cases "select_transport_factory env s config") (auto simp: isl_def)
    from select_transport_factory_no_listen [of env s config] f
    have "filter is_listen fx = []" by simp
    with f True assms(1) nv show ?thesis
      by (simp add: start_router_transport_def start_router_transport_begin_def)
  qed
qed


theorem start_router_transport_unrecognized_path_witness:
  "let endpoint = JObj [(u ''type'', JStr (u ''tcp'')), (u ''port'', JInt 8080)];
       good = JObj [(u ''type'', JStr (u ''web'')), (u ''endpoint'', endpoint),
                    (u ''paths'', JObj [(u ''/'', JObj [(u ''type'', JStr (u ''json'')),
                                                        (u ''value'', JInt 1)])])];
       strict = (sample_env Py3)\<lparr>check_router_transport := (\<lambda>c. c = good)\<rparr>;
       bogus = JObj [(u ''type'', JStr (u ''bogus''))];
       config = JObj [(u ''type'', JStr (u ''web'')), (u ''endpoint'', endpoint),
                      (u ''paths'', JObj [(u ''a'', JObj [(u ''type'', JStr (u ''schemadoc'')),
                                                          (u ''realm'', JStr (u ''realm1''))]),
                                          (u ''b'', bogus)])]
   in validator_knows_path_types strict
      \<and> has_unrecognized_type bogus
      \<and> start_router_transport strict (onJoin []) (u ''t1'') config (Inr 1) 5 =
           (Inl (ApplicationError invalid_configuration), onJoin [])
      \<and> (\<exists>e s'. start_router_transport (sample_env Py3) (onJoin []) (u ''t1'') config (Inr 1) 5 =
                    (Inl e, s')
            \<and> transports s' = [] \<and> filter is_listen (calls s') = [])
      \<and> create_resource strict (onJoin []) bogus True =
           (Inl (ApplicationError invalid_configuration), [])"
proof -
  define endpoint where "endpoint = JObj [(u ''type'', JStr (u ''tcp'')), (u ''port'', JInt 8080)]"
  define jsoncfg where "jsoncfg = JObj [(u ''type'', JStr (u ''json'')), (u ''value'', JInt 1)]"
  define good where "good = JObj [(u ''type'', JStr (u ''web'')), (u ''endpoint'', endpoint),
                    (u ''paths'', JObj [(u ''/'', jsoncfg)])]"
  define strict where "strict = (sample_env Py3)\<lparr>check_router_transport := (\<lambda>c. c = good)\<rparr>"
  define bogus where "bogus = JObj [(u ''type'', JStr (u ''bogus''))]"
  define paths where "paths = [(u ''a'', JObj [(u ''type'', JStr (u ''schemadoc'')),
                                               (u ''realm'', JStr (u ''realm1''))]),
                               (u ''b'', bogus)]"
  define config where "config = JObj [(u ''type'', JStr (u ''web'')), (u ''endpoint'', endpoint),
                      (u ''paths'', JObj paths)]"
  have ok: "\<not> has_unrecognized_type jsoncfg"
  proof
    assume "has_unrecognized_type jsoncfg"
    then show False
      by cases (simp_all add: jsoncfg_def py_getitem_def recognized_types_def)
  qed
  have v: "validator_knows_path_types strict"
    unfolding validator_knows_path_types_def
  proof (intro allI impI)
    fix c ps k pc
    assume "check_router_transport strict c" "py_getitem c (u ''paths'') = Inr (JObj ps)"
      "map_of ps k = Some pc"
    then have "pc = jsoncfg"
      by (auto simp: strict_def good_def py_getitem_def split: if_splits)
    with ok show "\<not> has_unrecognized_type pc" by simp
  qed
  have b: "has_unrecognized_type bogus"
    by (rule has_unrecognized_type.here [of _ "JStr (u ''bogus'')"])
       (simp_all add: bogus_def py_getitem_def recognized_types_def)
  have h: "\<not> dict_in (u ''t1'') (transports (onJoin []))"
    "py_getitem config (u ''type'') = Inr (JStr (u ''web''))"
    "py_getitem config (u ''paths'') = Inr (JObj paths)"
    "map_of paths (u ''b'') = Some bogus"
    by (simp_all add: onJoin_def config_def paths_def py_getitem_def)
  note t = start_router_transport_unrecognized_path [OF h b]
  from t [of strict "Inr 1" 5] v
  have 1: "start_router_transport strict (onJoin []) (u ''t1'') config (Inr 1) 5 =
           (Inl (ApplicationError invalid_configuration), onJoin [])"
    by auto
  from t [of "sample_env Py3" "Inr 1" 5]
  have 2: "\<exists>e s'. start_router_transport (sample_env Py3) (onJoin []) (u ''t1'') config (Inr 1) 5 =
                    (Inl e, s')
            \<and> transports s' = [] \<and> filter is_listen (calls s') = []"
    by (auto simp: onJoin_def)
  from t [of strict "Inr 1" 5]
  have 3: "create_resource strict (onJoin []) bogus True =
           (Inl (ApplicationError invalid_configuration), [])"
    by (simp add: bogus_def py_getitem_def recognized_types_def)
  from v b 1 2 3 show ?thesis
    unfolding Let_def endpoint_def [symmetric] jsoncfg_def [symmetric] good_def [symmetric]
      strict_def [symmetric] bogus_def [symmetric] paths_def [symmetric] config_def [symmetric]
    by blast
qed



text \<open>
  The fault is that of the validator or of the first path that fails to build.  With a
  validator that accepts every configuration, the path \<^verbatim>\<open>a\<close>, a schema documentation for
  a realm that does not exist, is built before the path \<^verbatim>\<open>b\<close> of unrecognized type, and
  the call raises the fault \<^verbatim>\<open>no_such_object\<close>; nothing is registered and no port is
  requested.
\<close>

lemma start_router_transport_earlier_path_fails_first:
  "let config = JObj [(u ''type'', JStr (u ''web'')),
                      (u ''endpoint'', JObj [(u ''type'', JStr (u ''tcp'')), (u ''port'', JInt 8080)]),
                      (u ''paths'', JObj [(u ''a'', JObj [(u ''type'', JStr (u ''schemadoc'')),
                                                          (u ''realm'', JStr (u ''realm1''))]),
                                          (u ''b'', JObj [(u ''type'', JStr (u ''bogus''))])])]
   in start_router_transport (sample_env Py3) (onJoin []) (u ''t1'') config (Inr 1) 5 =
        (Inl (ApplicationError no_such_object), onJoin [])"
proof -
  define paths where "paths = [(u ''a'', JObj [(u ''type'', JStr (u ''schemadoc'')),
                                               (u ''realm'', JStr (u ''realm1''))]),
                               (u ''b'', JObj [(u ''type'', JStr (u ''bogus''))])]"
  have keys: "sort (dict_keys paths) = [u ''a'', u ''b'']"
    by (simp add: paths_def dict_keys_def u_def)
  have a: "map_of paths (u ''a'') =
      Some (JObj [(u ''type'', JStr (u ''schemadoc'')), (u ''realm'', JStr (u ''realm1''))])"
    "map_of paths (u ''/'') = None"
    by (simp_all add: paths_def)
  have mk: "create_resource env (onJoin [])
       (JObj [(u ''type'', JStr (u ''schemadoc'')), (u ''realm'', JStr (u ''realm1''))]) nested =
      (Inl (ApplicationError no_such_object), [])" for env nested
    by (simp add: create_resource.simps py_getitem_def create_schemadoc_def onJoin_def)
  have "add_paths Py3 (\<lambda>pc. create_resource (sample_env Py3) (onJoin []) pc True)
          (Resource (Resource404 []) []) paths = (Inl (ApplicationError no_such_object), [])"
    by (simp add: add_paths_def keys a mk encode_utf8_ascii)
  then have "web_transport_factory (sample_env Py3) (onJoin [])
       (JObj [(u ''type'', JStr (u ''web'')),
              (u ''endpoint'', JObj [(u ''type'', JStr (u ''tcp'')), (u ''port'', JInt 8080)]),
              (u ''paths'', JObj paths)]) = (Inl (ApplicationError no_such_object), [])"
    by (simp add: web_transport_factory_def py_get_def py_getitem_def a sample_env_def)
  then show ?thesis
    unfolding Let_def paths_def [symmetric]
    by (simp add: start_router_transport_def start_router_transport_begin_def
        select_transport_factory_def py_getitem_def sample_env_def onJoin_def)
qed

end
